theory Spec2Isabelle
  imports Complex_Main
begin

section \<open>Python values\<close>

text \<open>
  The service moves JSON documents around: GitHub's replies, the provider's reply and the
  error envelopes are all Python values built from \<open>None\<close>, booleans, integers, floats,
  strings, lists and dicts. A float is carried by its \<open>repr\<close> text, which identifies it;
  no arithmetic is done on floats. A dict is the list of its items in insertion order
  (keys distinct). A string is a list of code points below 256 (the Latin-1 part of
  Unicode); the string functions below are Python's on that range.
\<close>

datatype json =
    JNull
  | JBool bool
  | JInt int
  | JFloat string
  | JStr string
  | JArr "json list"
  | JObj "(string \<times> json) list"

text \<open>\<open>d.get(key, default)\<close>\<close>

definition dict_get :: "(string \<times> json) list \<Rightarrow> string \<Rightarrow> json \<Rightarrow> json" where
  "dict_get kvs k d = (case map_of kvs k of None \<Rightarrow> d | Some v \<Rightarrow> v)"

subsection \<open>String methods\<close>

text \<open>\<open>str.isspace\<close> on one character: TAB..CR, FS..US, space, NEL and NBSP.\<close>

definition py_isspace :: "char \<Rightarrow> bool" where
  "py_isspace c = (let n = (of_char c :: nat) in
     (9 \<le> n \<and> n \<le> 13) \<or> (28 \<le> n \<and> n \<le> 32) \<or> n = 133 \<or> n = 160)"

text \<open>\<open>s.strip()\<close>\<close>

definition py_strip :: "string \<Rightarrow> string" where
  "py_strip s = rev (dropWhile py_isspace (rev (dropWhile py_isspace s)))"

text \<open>
  \<open>s.lower()\<close>: the upper-case letters are A..Z and the accented capitals 0xC0..0xDE
  without the multiplication sign 0xD7; the lower-case letter is 32 further, that is,
  the same character with bit 5 set (it is clear in every upper-case letter).
\<close>

definition is_upper :: "char \<Rightarrow> bool" where
  "is_upper c = (let n = (of_char c :: nat) in
     (65 \<le> n \<and> n \<le> 90) \<or> (192 \<le> n \<and> n \<le> 222 \<and> n \<noteq> 215))"

definition lower_char :: "char \<Rightarrow> char" where
  "lower_char c =
     (if is_upper c
      then (case c of Char b0 b1 b2 b3 b4 b5 b6 b7 \<Rightarrow> Char b0 b1 b2 b3 b4 True b6 b7)
      else c)"

definition py_lower :: "string \<Rightarrow> string" where
  "py_lower s = map lower_char s"

text \<open>\<open>s.replace(old, new)\<close> for one-character \<open>old\<close> and \<open>new\<close>.\<close>

definition py_replace :: "char \<Rightarrow> char \<Rightarrow> string \<Rightarrow> string" where
  "py_replace old new s = map (\<lambda>c. if c = old then new else c) s"

text \<open>\<open>s.rstrip(ch)\<close> for a one-character argument.\<close>

definition py_rstrip :: "char \<Rightarrow> string \<Rightarrow> string" where
  "py_rstrip ch s = rev (dropWhile (\<lambda>c. c = ch) (rev s))"

text \<open>\<open>sub in s\<close>\<close>

fun py_in :: "string \<Rightarrow> string \<Rightarrow> bool" where
  "py_in sub [] = (sub = [])"
| "py_in sub (c # cs) = (take (length sub) (c # cs) = sub \<or> py_in sub cs)"

text \<open>
  \<open>s.split(sep)\<close>: the occurrences of \<open>sep\<close> are found from the left and do not
  overlap; \<open>acc\<close> holds the current piece, reversed. The separators of this program
  are non-empty constants.
\<close>

function split_from :: "string \<Rightarrow> string \<Rightarrow> string \<Rightarrow> string list" where
  "split_from sep acc [] = [rev acc]"
| "split_from sep acc (c # cs) =
     (if sep \<noteq> [] \<and> take (length sep) (c # cs) = sep
      then rev acc # split_from sep [] (drop (length sep) (c # cs))
      else split_from sep (c # acc) cs)"
  by pat_completeness auto
termination
  by (relation "measure (\<lambda>(sep, acc, s). length s)") auto

definition py_split :: "string \<Rightarrow> string \<Rightarrow> string list" where
  "py_split sep s = split_from sep [] s"

text \<open>\<open>sep.join(xs)\<close>\<close>

fun py_join :: "string \<Rightarrow> string list \<Rightarrow> string" where
  "py_join sep [] = []"
| "py_join sep [x] = x"
| "py_join sep (x # y # ys) = x @ sep @ py_join sep (y # ys)"

subsection \<open>\<open>str\<close> and \<open>repr\<close>\<close>

fun str_nat :: "nat \<Rightarrow> string" where
  "str_nat n =
     (if n < 10 then [''0123456789'' ! n]
      else str_nat (n div 10) @ [''0123456789'' ! (n mod 10)])"

declare str_nat.simps [simp del]

definition str_int :: "int \<Rightarrow> string" where
  "str_int i = (if i < 0 then CHR ''-'' # str_nat (nat (- i)) else str_nat (nat i))"

text \<open>
  \<open>repr\<close> of a string: single quotes, unless the string holds a single quote and no
  double quote; the quote and the backslash are escaped, TAB, LF and CR are written
  \<open>\t\<close>, \<open>\n\<close>, \<open>\r\<close>, and the other characters that are not printable (controls, DEL,
  0x80..0xA0, the soft hyphen 0xAD) as \<open>\xhh\<close>.
\<close>

definition hex2 :: "nat \<Rightarrow> string" where
  "hex2 n = [''0123456789abcdef'' ! (n div 16), ''0123456789abcdef'' ! (n mod 16)]"

definition repr_char :: "char \<Rightarrow> char \<Rightarrow> string" where
  "repr_char quote c = (let n = (of_char c :: nat) in
     if c = quote \<or> c = CHR 0x5C then [CHR 0x5C, c]
     else if n = 9 then [CHR 0x5C, CHR ''t'']
     else if n = 10 then [CHR 0x5C, CHR ''n'']
     else if n = 13 then [CHR 0x5C, CHR ''r'']
     else if n < 32 \<or> n = 127 then [CHR 0x5C, CHR ''x''] @ hex2 n
     else if n < 127 then [c]
     else if n \<le> 160 \<or> n = 173 then [CHR 0x5C, CHR ''x''] @ hex2 n
     else [c])"

definition repr_str :: "string \<Rightarrow> string" where
  "repr_str s = (let quote = (if CHR 0x27 \<in> set s \<and> CHR 0x22 \<notin> set s then CHR 0x22 else CHR 0x27)
     in [quote] @ concat (map (repr_char quote) s) @ [quote])"

fun py_repr :: "json \<Rightarrow> string" where
  "py_repr JNull = ''None''"
| "py_repr (JBool b) = (if b then ''True'' else ''False'')"
| "py_repr (JInt i) = str_int i"
| "py_repr (JFloat r) = r"
| "py_repr (JStr s) = repr_str s"
| "py_repr (JArr xs) = ''['' @ py_join '', '' (map py_repr xs) @ '']''"
| "py_repr (JObj kvs) =
     ''{'' @ py_join '', '' (map (\<lambda>kv. repr_str (fst kv) @ '': '' @ py_repr (snd kv)) kvs) @ ''}''"

text \<open>\<open>str(v)\<close>: a string is itself, every other value is its \<open>repr\<close>.\<close>

definition py_str :: "json \<Rightarrow> string" where
  "py_str v = (case v of JStr s \<Rightarrow> s | _ \<Rightarrow> py_repr v)"

section \<open>Exceptions\<close>

text \<open>
  An exception other than \<open>HTTPException\<close> is its class and its \<open>str()\<close> text. The class
  matters where a handler selects on it: \<open>json.JSONDecodeError\<close>, the \<open>ValueError\<close> and the
  plain \<open>Exception\<close> that the analyzer raises itself; \<open>Other\<close> stands for every other class
  (\<open>AttributeError\<close>, \<open>TypeError\<close>, \<open>KeyError\<close>, pydantic's \<open>ValidationError\<close>, the errors of
  the provider's SDK). An \<open>HTTPException\<close> carries a status code and a detail, which is a
  string or a dict.
\<close>

datatype exn_class = JSONDecodeError | ValueError | Exception | Other

datatype error = Error exn_class string

fun exn_str :: "error \<Rightarrow> string" where
  "exn_str (Error cls m) = m"

datatype py_exn = HTTPException int json | Raised error

text \<open>
  What the Python runtime and pydantic contribute and the repository does not fix: how a
  \<open>str\<close> field of a model treats a value that is not a string (\<open>None\<close> when it is
  rejected, the coerced string otherwise), the text of the exceptions that they raise, and
  the sum \<open>x + n\<close> of a float and an int and the difference \<open>x - y\<close> of two floats. A
  float is the real number that the double denotes. Sum and difference are computed on
  doubles: the int is converted, which raises \<open>OverflowError\<close> beyond the range of doubles
  (\<open>None\<close>), and the result is rounded, so it need not be the exact one. The clock is far
  below the range where the result is infinite.
\<close>

datatype failure =
    NoGetAttribute json
  | NotSubscriptable json
  | InvalidModel json json json

record platform =
  str_field :: "json \<Rightarrow> string option"
  failure_text :: "failure \<Rightarrow> string"
  float_add :: "real \<Rightarrow> int \<Rightarrow> real option"
  float_sub :: "real \<Rightarrow> real \<Rightarrow> real"

section \<open>models.py\<close>

datatype IssueType = BUG | FEATURE_REQUEST | DOCUMENTATION | QUESTION | OTHER

fun IssueType_value :: "IssueType \<Rightarrow> string" where
  "IssueType_value BUG = ''bug''"
| "IssueType_value FEATURE_REQUEST = ''feature_request''"
| "IssueType_value DOCUMENTATION = ''documentation''"
| "IssueType_value QUESTION = ''question''"
| "IssueType_value OTHER = ''other''"

definition IssueType_members :: "IssueType list" where
  "IssueType_members = [BUG, FEATURE_REQUEST, DOCUMENTATION, QUESTION, OTHER]"

text \<open>\<open>IssueType(s)\<close>: the member with that value; \<open>None\<close> where Python raises \<open>ValueError\<close>.\<close>

definition IssueType_of :: "string \<Rightarrow> IssueType option" where
  "IssueType_of s = find (\<lambda>t. IssueType_value t = s) IssueType_members"

record IssueAnalysis =
  summary :: string
  type :: IssueType
  priority_score :: string
  suggested_labels :: "string list"
  potential_impact :: string

text \<open>A \<open>str\<close> field takes a string as it is.\<close>

definition validate_str :: "platform \<Rightarrow> json \<Rightarrow> string option" where
  "validate_str pf v = (case v of JStr s \<Rightarrow> Some s | _ \<Rightarrow> str_field pf v)"

text \<open>\<open>List[str]\<close> with \<open>min_items=1, max_items=5\<close>: a list of one to five valid items.\<close>

definition validate_labels :: "platform \<Rightarrow> json \<Rightarrow> string list option" where
  "validate_labels pf v =
     (case v of
        JArr xs \<Rightarrow> if 1 \<le> length xs \<and> length xs \<le> 5 then those (map (validate_str pf) xs) else None
      | _ \<Rightarrow> None)"

text \<open>
  \<open>IssueAnalysis(summary=..., type=..., priority_score=..., suggested_labels=...,
  potential_impact=...)\<close>: the model is built when every field validates, and a
  \<open>ValidationError\<close> is raised otherwise. The \<open>type\<close> argument is already a member and
  \<open>priority_score\<close> already a string.
\<close>

definition IssueAnalysis_new ::
  "platform \<Rightarrow> json \<Rightarrow> IssueType \<Rightarrow> string \<Rightarrow> json \<Rightarrow> json \<Rightarrow> error + IssueAnalysis" where
  "IssueAnalysis_new pf s t prio labels impact =
     (case (validate_str pf s, validate_labels pf labels, validate_str pf impact) of
        (Some s', Some labels', Some impact') \<Rightarrow>
          Inr \<lparr>summary = s', type = t, priority_score = prio,
               suggested_labels = labels', potential_impact = impact'\<rparr>
      | _ \<Rightarrow> Inl (Error Other (failure_text pf (InvalidModel s labels impact))))"

section \<open>llm\_analyzer.py\<close>

text \<open>
  \<open>str(parsed.get("type", "other")).strip().lower().replace(" ", "_")\<close>, replaced by
  \<open>"other"\<close> when it is not the value of a member.
\<close>

definition normalize_type :: "json \<Rightarrow> string" where
  "normalize_type v =
     (let parsed_type = py_replace CHR '' '' CHR ''_'' (py_lower (py_strip (py_str v)))
      in if parsed_type \<notin> set (map IssueType_value IssueType_members) then ''other''
         else parsed_type)"

text \<open>\<open>prio\<close>: kept when it is a string, \<open>str(prio)\<close> otherwise.\<close>

definition coerce_priority :: "json \<Rightarrow> string" where
  "coerce_priority prio = (case prio of JStr s \<Rightarrow> s | _ \<Rightarrow> py_str prio)"

text \<open>
  \<open>v[:5]\<close>: the first five items of a list, the first five characters of a string; the
  other values cannot be sliced.
\<close>

definition slice5 :: "platform \<Rightarrow> json \<Rightarrow> error + json" where
  "slice5 pf v =
     (case v of
        JArr xs \<Rightarrow> Inr (JArr (take 5 xs))
      | JStr s \<Rightarrow> Inr (JStr (take 5 s))
      | _ \<Rightarrow> Inl (Error Other (failure_text pf (NotSubscriptable v))))"

text \<open>
  The statements of \<open>analyze_issue\<close> after \<open>json.loads\<close>. \<open>parsed.get\<close> exists on a dict
  only. The keyword arguments are evaluated in the order they are written.
\<close>

definition build_analysis :: "platform \<Rightarrow> json \<Rightarrow> error + IssueAnalysis" where
  "build_analysis pf parsed =
     (case parsed of
        JObj kvs \<Rightarrow>
          (let parsed_type = normalize_type (dict_get kvs ''type'' (JStr ''other''));
               prio = coerce_priority (dict_get kvs ''priority_score'' (JStr ''1''))
           in case IssueType_of parsed_type of
                None \<Rightarrow> Inl (Error ValueError (repr_str parsed_type @ '' is not a valid IssueType''))
              | Some t \<Rightarrow>
                  (case slice5 pf (dict_get kvs ''suggested_labels'' (JArr [])) of
                     Inl e \<Rightarrow> Inl e
                   | Inr labels \<Rightarrow>
                       IssueAnalysis_new pf (dict_get kvs ''summary'' (JStr '''')) t prio labels
                         (dict_get kvs ''potential_impact'' (JStr ''''))))
      | _ \<Rightarrow> Inl (Error Other (failure_text pf (NoGetAttribute parsed))))"

text \<open>
  The two handlers of the \<open>try\<close> statement: a \<open>JSONDecodeError\<close> becomes a \<open>ValueError\<close>,
  any other exception a plain \<open>Exception\<close>.
\<close>

definition analysis_handlers :: "error \<Rightarrow> error" where
  "analysis_handlers e =
     (case e of
        Error JSONDecodeError m \<Rightarrow> Error ValueError (''Failed to parse LLM response: '' @ m)
      | _ \<Rightarrow> Error Exception (''Error during LLM analysis: '' @ exn_str e))"

text \<open>
  One run of \<open>analyze_issue\<close>, told by how far it gets before the reply is parsed: the
  prompt cannot be formatted (outside the \<open>try\<close>), the provider call raises,
  \<open>json.loads\<close> raises (a \<open>JSONDecodeError\<close> on a reply that the decoder rejects, another
  exception such as \<open>RecursionError\<close> or \<open>TypeError\<close> otherwise), or the reply is parsed.
  It tells what happens if the analyzer is called.
\<close>

datatype llm_run =
    PromptRaised error
  | ProviderRaised error
  | LoadsRaised error
  | Loaded json

definition analyze_issue :: "platform \<Rightarrow> llm_run \<Rightarrow> error + IssueAnalysis" where
  "analyze_issue pf run =
     (case run of
        PromptRaised e \<Rightarrow> Inl e
      | ProviderRaised e \<Rightarrow> Inl (analysis_handlers e)
      | LoadsRaised e \<Rightarrow> Inl (analysis_handlers e)
      | Loaded parsed \<Rightarrow>
          (case build_analysis pf parsed of
             Inl e \<Rightarrow> Inl (analysis_handlers e)
           | Inr a \<Rightarrow> Inr a))"

section \<open>github\_client.py\<close>

text \<open>
  The client's state is its two dicts and the TTL read from the environment at start.
  \<open>time.time()\<close> is a double, taken as the real number of seconds that it denotes; an
  expiry is such a double too, and the comparison of two doubles is the comparison of
  their values. A cached value is the dict that \<open>get_issue_data\<close> built; Python's \<open>None\<close>
  is \<open>JNull\<close>.
\<close>

type_synonym key = "string \<times> string \<times> int"

record GitHubClient =
  cache :: "key \<Rightarrow> json option"
  cache_expiry :: "key \<Rightarrow> real option"
  ttl_seconds :: int

definition cache_get :: "GitHubClient \<Rightarrow> real \<Rightarrow> key \<Rightarrow> json \<times> GitHubClient" where
  "cache_get c now k =
     (case cache c k of
        Some v \<Rightarrow>
          if (case cache_expiry c k of None \<Rightarrow> 0 | Some x \<Rightarrow> x) > now then (v, c)
          else (JNull, c\<lparr>cache := (cache c)(k := None),
                          cache_expiry := (cache_expiry c)(k := None)\<rparr>)
      | None \<Rightarrow> (JNull, c))"

text \<open>
  \<open>_cache_set\<close> stores the value first and the expiry \<open>time.time() + self.ttl_seconds\<close>
  second; when the sum raises, the value is stored and the expiry is left as it was. The
  result is the exception, if any, and the new state.
\<close>

definition cache_set ::
  "platform \<Rightarrow> GitHubClient \<Rightarrow> real \<Rightarrow> key \<Rightarrow> json \<Rightarrow> error option \<times> GitHubClient" where
  "cache_set pf c now k v =
     (let c1 = c\<lparr>cache := (cache c)(k \<mapsto> v)\<rparr>
      in case float_add pf now (ttl_seconds c) of
           None \<Rightarrow> (Some (Error Other ''int too large to convert to float''), c1)
         | Some x \<Rightarrow> (None, c1\<lparr>cache_expiry := (cache_expiry c)(k \<mapsto> x)\<rparr>))"

text \<open>
  What one \<open>client.get\<close> with \<open>raise_for_status\<close> and \<open>response.json()\<close> comes to: the
  decoded body, an \<open>httpx.HTTPStatusError\<close> (the response's status, its header lookup
  \<open>headers.get\<close>, and \<open>str(e)\<close>), an \<open>httpx.RequestError\<close>, or any other exception.
\<close>

datatype http_outcome =
    Json json
  | HTTPStatusError int "string \<Rightarrow> string option" string
  | RequestError string
  | OtherRaised error

definition BASE_URL :: string where
  "BASE_URL = ''https://api.github.com''"

definition issue_url :: "string \<Rightarrow> string \<Rightarrow> int \<Rightarrow> string" where
  "issue_url owner repo n = BASE_URL @ ''/repos/'' @ owner @ ''/'' @ repo @ ''/issues/'' @ str_int n"

definition comments_url :: "string \<Rightarrow> string \<Rightarrow> int \<Rightarrow> string" where
  "comments_url owner repo n = issue_url owner repo n @ ''/comments''"

definition headers_get :: "(string \<Rightarrow> string option) \<Rightarrow> string \<Rightarrow> string \<Rightarrow> string" where
  "headers_get hs name d = (case hs name of None \<Rightarrow> d | Some v \<Rightarrow> v)"

definition get_issue :: "string \<Rightarrow> string \<Rightarrow> int \<Rightarrow> http_outcome \<Rightarrow> py_exn + json" where
  "get_issue owner repo n outcome =
     (case outcome of
        Json j \<Rightarrow> Inr j
      | HTTPStatusError code hs m \<Rightarrow>
          if code = 404
          then Inl (HTTPException 404 (JStr (''Issue #'' @ str_int n @ '' not found in '' @ owner
                      @ ''/'' @ repo @ '' or repository is private'')))
          else if code = 403 \<and> headers_get hs ''X-RateLimit-Remaining'' ''unknown'' = ''0''
          then Inl (HTTPException 429 (JObj
                 [(''message'', JStr ''GitHub API rate limit exceeded''),
                  (''reset_time'', JStr (headers_get hs ''X-RateLimit-Reset'' ''unknown'')),
                  (''docs'', JStr ''https://docs.github.com/en/rest/overview/resources-in-the-rest-api#rate-limiting'')]))
          else Inl (HTTPException code (JStr (''GitHub API error: '' @ m)))
      | RequestError m \<Rightarrow> Inl (HTTPException 503 (JStr (''Failed to connect to GitHub API: '' @ m)))
      | OtherRaised e \<Rightarrow> Inl (Raised e))"

definition get_issue_comments :: "string \<Rightarrow> string \<Rightarrow> int \<Rightarrow> http_outcome \<Rightarrow> py_exn + json" where
  "get_issue_comments owner repo n outcome =
     (case outcome of
        Json j \<Rightarrow> Inr j
      | HTTPStatusError code hs m \<Rightarrow>
          if code = 404 then Inr (JArr [])
          else Inl (HTTPException code (JStr (''Failed to fetch comments: '' @ m)))
      | RequestError m \<Rightarrow> Inl (HTTPException 503 (JStr (''Failed to connect to GitHub API: '' @ m)))
      | OtherRaised e \<Rightarrow> Inl (Raised e))"

text \<open>
  The surroundings of one \<open>get_issue_data\<close>: the clock as \<open>_cache_get\<close> reads it, what the
  two endpoints answer if they are asked, and the clock as \<open>_cache_set\<close> reads it. The
  result comes with the new state of the client and the URLs requested, in order.
\<close>

record fetch_env =
  t_lookup :: real
  issue_reply :: http_outcome
  comments_reply :: http_outcome
  t_store :: real

definition get_issue_data ::
  "platform \<Rightarrow> GitHubClient \<Rightarrow> fetch_env \<Rightarrow> string \<Rightarrow> string \<Rightarrow> int
     \<Rightarrow> (py_exn + json) \<times> GitHubClient \<times> string list" where
  "get_issue_data pf c env owner repo n =
     (case cache_get c (t_lookup env) (owner, repo, n) of
        (cached, c1) \<Rightarrow>
          if cached \<noteq> JNull then (Inr cached, c1, [])
          else
            (case get_issue owner repo n (issue_reply env) of
               Inl e \<Rightarrow> (Inl e, c1, [issue_url owner repo n])
             | Inr issue \<Rightarrow>
                 (case get_issue_comments owner repo n (comments_reply env) of
                    Inl e \<Rightarrow> (Inl e, c1, [issue_url owner repo n, comments_url owner repo n])
                  | Inr comments \<Rightarrow>
                      (let result = JObj [(''issue'', issue), (''comments'', comments)]
                       in case cache_set pf c1 (t_store env) (owner, repo, n) result of
                            (Some e, c2) \<Rightarrow>
                              (Inl (Raised e), c2,
                               [issue_url owner repo n, comments_url owner repo n])
                          | (None, c2) \<Rightarrow>
                              (Inr result, c2,
                               [issue_url owner repo n, comments_url owner repo n])))))"

section \<open>Start of the process\<close>

text \<open>
  \<open>LLMAnalyzer.__init__\<close> reads the provider and its credential from the environment;
  importing the provider's SDK and building its client may raise as well. The module keeps
  the analyzer, or \<open>None\<close> when the constructor raised.
\<close>

record startup =
  environ :: "string \<Rightarrow> string option"
  import_failure :: "error option"
  client_failure :: "error option"

definition getenv :: "startup \<Rightarrow> string \<Rightarrow> string \<Rightarrow> string" where
  "getenv st name d = (case environ st name of None \<Rightarrow> d | Some v \<Rightarrow> v)"

record LLMAnalyzer =
  provider :: string

definition provider_client :: "startup \<Rightarrow> string \<Rightarrow> string \<Rightarrow> string \<Rightarrow> error + LLMAnalyzer" where
  "provider_client st p var missing =
     (case import_failure st of
        Some e \<Rightarrow> Inl e
      | None \<Rightarrow>
          (case environ st var of
             None \<Rightarrow> Inl (Error ValueError missing)
           | Some api_key \<Rightarrow>
               if api_key = [] then Inl (Error ValueError missing)
               else (case client_failure st of
                       Some e \<Rightarrow> Inl e
                     | None \<Rightarrow> Inr \<lparr>provider = p\<rparr>)))"

definition LLMAnalyzer_init :: "startup \<Rightarrow> error + LLMAnalyzer" where
  "LLMAnalyzer_init st =
     (let p = py_lower (getenv st ''LLM_PROVIDER'' ''openai'')
      in if p = ''openai''
         then provider_client st p ''OPENAI_API_KEY'' ''OPENAI_API_KEY environment variable is not set''
         else if p = ''gemini''
         then provider_client st p ''GEMINI_API_KEY'' ''GEMINI_API_KEY environment variable is not set''
         else Inl (Error ValueError ''Unsupported LLM_PROVIDER. Use 'openai' or 'gemini'.''))"

definition llm_analyzer_singleton :: "startup \<Rightarrow> LLMAnalyzer option" where
  "llm_analyzer_singleton st = (case LLMAnalyzer_init st of Inl e \<Rightarrow> None | Inr a \<Rightarrow> Some a)"

section \<open>main.py\<close>

record ErrorResponse =
  detail :: string
  error_type :: "string option"
  metadata :: "json option"

text \<open>\<open>ErrorResponse(...).dict()\<close>\<close>

definition ErrorResponse_dict :: "ErrorResponse \<Rightarrow> json" where
  "ErrorResponse_dict r =
     JObj [(''detail'', JStr (detail r)),
           (''error_type'', (case error_type r of None \<Rightarrow> JNull | Some t \<Rightarrow> JStr t)),
           (''metadata'', (case metadata r of None \<Rightarrow> JNull | Some m \<Rightarrow> m))]"

text \<open>The body of the \<open>try\<close> in \<open>extract_owner_repo\<close>, on the URL without its trailing slashes.\<close>

definition owner_and_repo :: "string \<Rightarrow> error + string \<times> string" where
  "owner_and_repo u =
     (if \<not> py_in ''github.com'' u then Inl (Error ValueError ''Invalid GitHub URL'')
      else (let parts = py_split ''/'' (last (py_split ''github.com/'' u))
            in if length parts < 2 then Inl (Error ValueError ''Invalid GitHub repository URL format'')
               else Inr (parts ! 0, parts ! 1)))"

definition extract_owner_repo :: "string \<Rightarrow> py_exn + string \<times> string" where
  "extract_owner_repo repo_url =
     (let u = py_rstrip CHR ''/'' repo_url
      in case owner_and_repo u of
           Inr r \<Rightarrow> Inr r
         | Inl e \<Rightarrow>
             Inl (HTTPException 400 (ErrorResponse_dict
               \<lparr>detail = ''Invalid GitHub repository URL: '' @ exn_str e,
                error_type = Some ''invalid_url'',
                metadata = Some (JObj [(''input'', JStr u)])\<rparr>)))"

text \<open>
  The \<open>HTTPException\<close> that \<open>extract_owner_repo\<close> raises, with the dict of its
  \<open>ErrorResponse\<close> written out: the reason is the text of the \<open>ValueError\<close>, the input is the
  URL without its trailing slashes.
\<close>

definition invalid_url :: "string \<Rightarrow> string \<Rightarrow> py_exn" where
  "invalid_url reason u =
     HTTPException 400
       (JObj [(''detail'', JStr (''Invalid GitHub repository URL: '' @ reason)),
              (''error_type'', JStr ''invalid_url''),
              (''metadata'', JObj [(''input'', JStr u)])])"

text \<open>
  A response is a status code with a JSON body. The reply that FastAPI gives by itself
  to a body that does not validate as \<open>GitHubIssueRequest\<close> has status 422; its body is not
  modelled.
\<close>

datatype http_response = JSONResponse int json | UnprocessableEntity

fun status_of :: "http_response \<Rightarrow> int" where
  "status_of (JSONResponse code body) = code"
| "status_of UnprocessableEntity = 422"

definition http_exception_handler :: "int \<Rightarrow> json \<Rightarrow> http_response" where
  "http_exception_handler code d =
     JSONResponse code
       (JObj [(''detail'', (case d of JObj kvs \<Rightarrow> d | _ \<Rightarrow> JStr (py_str d))),
              (''status_code'', JInt code)])"

definition global_exception_handler :: "error \<Rightarrow> http_response" where
  "global_exception_handler e =
     JSONResponse 500
       (JObj [(''detail'', JStr (''An unexpected error occurred: '' @ exn_str e)),
              (''error_type'', JStr ''internal_server_error''),
              (''status_code'', JInt 500)])"

record GitHubIssueRequest =
  repo_url :: string
  issue_number :: int

record app =
  github_client :: GitHubClient
  llm_analyzer :: "LLMAnalyzer option"

text \<open>The second handler of \<open>analyze_issue\<close>: any exception but an \<open>HTTPException\<close>.\<close>

definition analysis_error :: "error \<Rightarrow> py_exn" where
  "analysis_error e =
     HTTPException 500 (ErrorResponse_dict
       \<lparr>detail = ''An error occurred while processing your request: '' @ exn_str e,
        error_type = Some ''analysis_error'',
        metadata = None\<rparr>)"

definition service_unavailable :: py_exn where
  "service_unavailable =
     HTTPException 503 (ErrorResponse_dict
       \<lparr>detail = ''LLM service is not available'',
        error_type = Some ''service_unavailable'',
        metadata = None\<rparr>)"

text \<open>
  The function \<open>analyze_issue\<close> of \<open>main.py\<close>, for a request that passed validation: what it
  returns or raises, the application's state afterwards, and the URLs requested from GitHub.
\<close>

definition analyze_issue_route ::
  "platform \<Rightarrow> app \<Rightarrow> fetch_env \<Rightarrow> llm_run \<Rightarrow> GitHubIssueRequest
     \<Rightarrow> (py_exn + IssueAnalysis) \<times> app \<times> string list" where
  "analyze_issue_route pf a env run request =
     (case extract_owner_repo (repo_url request) of
        Inl he \<Rightarrow> (Inl he, a, [])
      | Inr (owner, repo) \<Rightarrow>
          (case get_issue_data pf (github_client a) env owner repo (issue_number request) of
             (r, c, calls) \<Rightarrow>
               (let a' = a\<lparr>github_client := c\<rparr>
                in case r of
                     Inl (HTTPException code d) \<Rightarrow> (Inl (HTTPException code d), a', calls)
                   | Inl (Raised e) \<Rightarrow> (Inl (analysis_error e), a', calls)
                   | Inr issue_data \<Rightarrow>
                       (case llm_analyzer a of
                          None \<Rightarrow> (Inl service_unavailable, a', calls)
                        | Some analyzer \<Rightarrow>
                            (case analyze_issue pf run of
                               Inl e \<Rightarrow> (Inl (analysis_error e), a', calls)
                             | Inr analysis \<Rightarrow> (Inr analysis, a', calls))))))"

definition IssueAnalysis_json :: "IssueAnalysis \<Rightarrow> json" where
  "IssueAnalysis_json x =
     JObj [(''summary'', JStr (summary x)),
           (''type'', JStr (IssueType_value (type x))),
           (''priority_score'', JStr (priority_score x)),
           (''suggested_labels'', JArr (map JStr (suggested_labels x))),
           (''potential_impact'', JStr (potential_impact x))]"

text \<open>
  \<open>POST /analyze\<close>: the body is validated against \<open>GitHubIssueRequest\<close>
  (\<open>issue_number: int = Field(..., gt=0)\<close>) before the function runs; an \<open>HTTPException\<close>
  goes through \<open>http_exception_handler\<close>, any other exception through
  \<open>global_exception_handler\<close>.
\<close>

definition post_analyze ::
  "platform \<Rightarrow> app \<Rightarrow> fetch_env \<Rightarrow> llm_run \<Rightarrow> GitHubIssueRequest
     \<Rightarrow> http_response \<times> app \<times> string list" where
  "post_analyze pf a env run request =
     (if \<not> issue_number request > 0 then (UnprocessableEntity, a, [])
      else (case analyze_issue_route pf a env run request of
              (r, a', calls) \<Rightarrow>
                ((case r of
                    Inl (HTTPException code d) \<Rightarrow> http_exception_handler code d
                  | Inl (Raised e) \<Rightarrow> global_exception_handler e
                  | Inr analysis \<Rightarrow> JSONResponse 200 (IssueAnalysis_json analysis)),
                 a', calls)))"

definition APP_VERSION :: string where
  "APP_VERSION = ''1.0.0''"

record HealthCheck =
  status :: string
  version :: string
  uptime :: "real option"
  dependencies :: "(string \<times> string) list option"

text \<open>
  \<open>GET /health\<close>: the function returns its dict, which FastAPI sends with status 200. The
  module-level \<open>github_client\<close> is an object, which is true in a condition. The uptime is
  \<open>time.time() - START_TIME\<close>.
\<close>

definition health_check :: "platform \<Rightarrow> app \<Rightarrow> real \<Rightarrow> real \<Rightarrow> int \<times> HealthCheck" where
  "health_check pf a start_time now =
     (200,
      \<lparr>status = ''healthy'',
       version = APP_VERSION,
       uptime = Some (float_sub pf now start_time),
       dependencies = Some
         [(''github_api'', ''operational''),
          (''llm_service'', if llm_analyzer a \<noteq> None then ''operational'' else ''unavailable'')]\<rparr>)"

text \<open>The application as the modules leave it after import.\<close>

definition start_app :: "startup \<Rightarrow> int \<Rightarrow> app" where
  "start_app st ttl =
     \<lparr>github_client = \<lparr>cache = Map.empty, cache_expiry = Map.empty, ttl_seconds = ttl\<rparr>,
      llm_analyzer = llm_analyzer_singleton st\<rparr>"

section \<open>Concrete runs\<close>

text \<open>
  A platform, a client, an application and replies to run the definitions on: pydantic
  without coercion, exception texts left empty and exact sums and differences (those of
  the runs below are of small integers, which are exact on doubles), a client with an
  empty cache
  and the default TTL, GitHub answering a complete issue and a 404 for its comments.
\<close>

definition strict_platform :: platform where
  "strict_platform = \<lparr>str_field = (\<lambda>v. None), failure_text = (\<lambda>f. []),
     float_add = (\<lambda>x n. Some (x + real_of_int n)), float_sub = (\<lambda>x y. x - y)\<rparr>"

definition example_client :: GitHubClient where
  "example_client = \<lparr>cache = Map.empty, cache_expiry = Map.empty, ttl_seconds = 300\<rparr>"

definition example_app :: app where
  "example_app = \<lparr>github_client = example_client, llm_analyzer = Some \<lparr>provider = ''openai''\<rparr>\<rparr>"

definition example_issue :: json where
  "example_issue = JObj
     [(''number'', JInt 1),
      (''title'', JStr ''Login error''),
      (''body'', JStr ''500 when logging in''),
      (''user'', JObj [(''login'', JStr ''alice'')]),
      (''state'', JStr ''open''),
      (''created_at'', JStr ''2024-01-01''),
      (''updated_at'', JStr ''2024-01-02'')]"

definition example_env :: fetch_env where
  "example_env = \<lparr>t_lookup = 1000, issue_reply = Json example_issue,
     comments_reply = HTTPStatusError 404 Map.empty ''Not Found'', t_store = 1001\<rparr>"

definition example_request :: GitHubIssueRequest where
  "example_request = \<lparr>repo_url = ''https://github.com/facebook/react'', issue_number = 1\<rparr>"

definition example_reply :: json where
  "example_reply = JObj
     [(''summary'', JStr ''Add a dark mode''),
      (''type'', JStr '' FEATURE REQUEST ''),
      (''priority_score'', JInt 5),
      (''suggested_labels'', JArr (map JStr
         [''enhancement'', ''ui'', ''theme'', ''css'', ''frontend'', ''design'', ''a11y'', ''help wanted''])),
      (''potential_impact'', JStr ''Cosmetic'')]"

definition example_reply_defaults :: json where
  "example_reply_defaults = JObj
     [(''summary'', JStr ''Crash on start''),
      (''suggested_labels'', JArr [JStr ''bug''])]"

definition example_bundle :: json where
  "example_bundle = JObj [(''issue'', example_issue), (''comments'', JArr [])]"

definition example_cached :: GitHubClient where
  "example_cached =
     \<lparr>cache = [(''facebook'', ''react'', 1) \<mapsto> example_bundle],
      cache_expiry = [(''facebook'', ''react'', 1) \<mapsto> 1301],
      ttl_seconds = 300\<rparr>"

definition example_env_within :: fetch_env where
  "example_env_within = \<lparr>t_lookup = 1300, issue_reply = RequestError ''offline'',
     comments_reply = RequestError ''offline'', t_store = 1300\<rparr>"

definition example_issue_edited :: json where
  "example_issue_edited = JObj
     [(''number'', JInt 1),
      (''title'', JStr ''Login error (edited)''),
      (''body'', JStr ''500 when logging in''),
      (''user'', JObj [(''login'', JStr ''alice'')]),
      (''state'', JStr ''open''),
      (''created_at'', JStr ''2024-01-01''),
      (''updated_at'', JStr ''2024-01-03'')]"

definition example_comments :: json where
  "example_comments = JArr
     [JObj [(''user'', JObj [(''login'', JStr ''bob'')]), (''body'', JStr ''Same here'')]]"

definition example_env_after :: fetch_env where
  "example_env_after = \<lparr>t_lookup = 1301, issue_reply = Json example_issue_edited,
     comments_reply = Json example_comments, t_store = 1302\<rparr>"

text \<open>
  Three environments at start: nothing set; an unsupported provider with both credentials
  set; Gemini selected with its credential.
\<close>

definition example_no_credential :: startup where
  "example_no_credential = \<lparr>environ = Map.empty, import_failure = None, client_failure = None\<rparr>"

definition example_unsupported :: startup where
  "example_unsupported =
     \<lparr>environ = [''LLM_PROVIDER'' \<mapsto> ''anthropic'', ''OPENAI_API_KEY'' \<mapsto> ''sk-test'',
                 ''GEMINI_API_KEY'' \<mapsto> ''g-test''],
      import_failure = None, client_failure = None\<rparr>"

definition example_configured :: startup where
  "example_configured =
     \<lparr>environ = [''LLM_PROVIDER'' \<mapsto> ''Gemini'', ''GEMINI_API_KEY'' \<mapsto> ''g-test''],
      import_failure = None, client_failure = None\<rparr>"

section \<open>The analyzer: auxiliary facts\<close>

lemma IssueType_of_value: "IssueType_of (IssueType_value t) = Some t"
  by (cases t) (simp_all add: IssueType_of_def IssueType_members_def)

lemma IssueType_of_Some: "IssueType_of s = Some t \<Longrightarrow> IssueType_value t = s"
  by (auto simp: IssueType_of_def IssueType_members_def split: if_splits)

lemma normalize_type_member: "normalize_type v \<in> set (map IssueType_value IssueType_members)"
  by (simp add: normalize_type_def Let_def IssueType_members_def)

lemma IssueType_of_normalize: "\<exists>t. IssueType_of (normalize_type v) = Some t"
proof -
  from normalize_type_member [of v]
  obtain t where "normalize_type v = IssueType_value t" by auto
  then show ?thesis by (simp add: IssueType_of_value)
qed

lemma those_length: "those xs = Some ys \<Longrightarrow> length ys = length xs"
  by (induction xs arbitrary: ys) (auto split: option.splits)

lemma those_validate_strings: "those (map (validate_str pf) (map JStr ls)) = Some ls"
  by (induction ls) (simp_all add: validate_str_def)

lemma validate_labels_length:
  "validate_labels pf v = Some ls \<Longrightarrow> 1 \<le> length ls \<and> length ls \<le> 5"
  by (auto simp: validate_labels_def split: json.splits if_splits dest: those_length)

lemma build_analysis_Inr:
  assumes "build_analysis pf (JObj kvs) = Inr a"
  shows "IssueType_of (normalize_type (dict_get kvs ''type'' (JStr ''other''))) = Some (type a)"
    and "priority_score a = coerce_priority (dict_get kvs ''priority_score'' (JStr ''1''))"
    and "\<exists>labels. slice5 pf (dict_get kvs ''suggested_labels'' (JArr [])) = Inr labels
           \<and> validate_labels pf labels = Some (suggested_labels a)"
    and "validate_str pf (dict_get kvs ''summary'' (JStr '''')) = Some (summary a)"
    and "validate_str pf (dict_get kvs ''potential_impact'' (JStr '''')) = Some (potential_impact a)"
  using assms
  by (auto simp: build_analysis_def Let_def IssueAnalysis_new_def split: option.splits sum.splits)

lemma build_analysis_Inr_obj: "build_analysis pf j = Inr a \<Longrightarrow> \<exists>kvs. j = JObj kvs"
  by (cases j) (simp_all add: build_analysis_def)

lemma analyze_issue_Inr: "analyze_issue pf run = Inr a \<Longrightarrow> \<exists>kvs. run = Loaded (JObj kvs) \<and> build_analysis pf (JObj kvs) = Inr a"
  by (cases run) (auto simp: analyze_issue_def split: sum.splits dest: build_analysis_Inr_obj)

lemma build_analysis_success:
  assumes "validate_str pf (dict_get kvs ''summary'' (JStr '''')) = Some s"
    and "slice5 pf (dict_get kvs ''suggested_labels'' (JArr [])) = Inr labels"
    and "validate_labels pf labels = Some ls"
    and "validate_str pf (dict_get kvs ''potential_impact'' (JStr '''')) = Some i"
  shows "\<exists>t. IssueType_of (normalize_type (dict_get kvs ''type'' (JStr ''other''))) = Some t \<and>
    build_analysis pf (JObj kvs) = Inr \<lparr>summary = s, type = t,
       priority_score = coerce_priority (dict_get kvs ''priority_score'' (JStr ''1'')),
       suggested_labels = ls, potential_impact = i\<rparr>"
proof -
  obtain t where "IssueType_of (normalize_type (dict_get kvs ''type'' (JStr ''other''))) = Some t"
    using IssueType_of_normalize by blast
  with assms show ?thesis
    by (simp add: build_analysis_def Let_def IssueAnalysis_new_def)
qed

lemma analyze_issue_Loaded: "analyze_issue pf (Loaded j) =
   (case build_analysis pf j of Inl e \<Rightarrow> Inl (analysis_handlers e) | Inr a \<Rightarrow> Inr a)"
  by (simp add: analyze_issue_def)

lemma build_analysis_error_class:
  "build_analysis pf j = Inl (Error cls x) \<Longrightarrow> cls \<noteq> JSONDecodeError"
  by (cases j)
    (auto simp: build_analysis_def Let_def IssueAnalysis_new_def slice5_def
      split: option.splits sum.splits json.splits)

lemma analysis_handlers_generic:
  "cls \<noteq> JSONDecodeError \<Longrightarrow>
     analysis_handlers (Error cls x) = Error Exception (''Error during LLM analysis: '' @ x)"
  by (cases cls) (simp_all add: analysis_handlers_def)

section \<open>The endpoint: auxiliary facts\<close>

lemma post_analyze_fetched:
  assumes "issue_number req > 0"
    and "extract_owner_repo (repo_url req) = Inr (owner, repo)"
    and "get_issue_data pf (github_client a) env owner repo (issue_number req) = (Inr d, c, calls)"
    and "llm_analyzer a = Some an"
  shows "post_analyze pf a env run req =
     ((case analyze_issue pf run of
         Inl e \<Rightarrow>
           JSONResponse 500
             (JObj [(''detail'',
                     JObj [(''detail'', JStr (''An error occurred while processing your request: '' @ exn_str e)),
                           (''error_type'', JStr ''analysis_error''),
                           (''metadata'', JNull)]),
                    (''status_code'', JInt 500)])
       | Inr x \<Rightarrow> JSONResponse 200 (IssueAnalysis_json x)),
      a\<lparr>github_client := c\<rparr>, calls)"
  using assms
  by (simp add: post_analyze_def analyze_issue_route_def analysis_error_def
      http_exception_handler_def ErrorResponse_dict_def split: sum.splits)

lemma example_extract:
  "extract_owner_repo (repo_url example_request) = Inr (''facebook'', ''react'')"
  by (simp add: example_request_def extract_owner_repo_def py_rstrip_def owner_and_repo_def
      py_split_def Let_def)

lemma example_fetch:
  "get_issue_data strict_platform (github_client example_app) example_env ''facebook'' ''react''
     (issue_number example_request) =
   (Inr (JObj [(''issue'', example_issue), (''comments'', JArr [])]), example_cached,
    [issue_url ''facebook'' ''react'' 1, comments_url ''facebook'' ''react'' 1])"
  by (simp add: example_app_def example_env_def example_request_def example_client_def
      example_cached_def example_bundle_def strict_platform_def
      get_issue_data_def cache_get_def cache_set_def get_issue_def get_issue_comments_def Let_def)

lemma example_reply_run:
  "analyze_issue strict_platform (Loaded example_reply) =
     Inr \<lparr>summary = ''Add a dark mode'', type = FEATURE_REQUEST, priority_score = ''5'',
          suggested_labels = [''enhancement'', ''ui'', ''theme'', ''css'', ''frontend''],
          potential_impact = ''Cosmetic''\<rparr>"
  by code_simp

lemma example_reply_defaults_run:
  "analyze_issue strict_platform (Loaded example_reply_defaults) =
     Inr \<lparr>summary = ''Crash on start'', type = OTHER, priority_score = ''1'',
          suggested_labels = [''bug''], potential_impact = ''''\<rparr>"
  by code_simp

section \<open>Normalization of the provider's reply\<close>

text \<open>
  C2. The type of the reply is stripped, lower-cased and its spaces replaced by
  underscores; the result is kept when it is the value of one of the five members of
  \<open>IssueType\<close> and replaced by \<open>other\<close> otherwise, so \<open>IssueType(parsed_type)\<close> never
  raises. \<open>"Bug"\<close>, \<open>" FEATURE REQUEST "\<close> and \<open>"nonsense"\<close> give \<open>bug\<close>, \<open>feature_request\<close>
  and \<open>other\<close>, and an analysis that is returned carries the normalized type.
\<close>

theorem type_normalization:
  "(\<exists>t. IssueType_of (normalize_type v) = Some t)
   \<and> (let s = py_replace CHR '' '' CHR ''_'' (py_lower (py_strip (py_str v)))
      in (s \<in> {''bug'', ''feature_request'', ''documentation'', ''question'', ''other''}
            \<longrightarrow> normalize_type v = s)
       \<and> (s \<notin> {''bug'', ''feature_request'', ''documentation'', ''question'', ''other''}
            \<longrightarrow> normalize_type v = ''other''))
   \<and> normalize_type (JStr ''Bug'') = ''bug''
   \<and> normalize_type (JStr '' FEATURE REQUEST '') = ''feature_request''
   \<and> normalize_type (JStr ''nonsense'') = ''other''
   \<and> (\<forall>kvs a. analyze_issue pf (Loaded (JObj kvs)) = Inr a
         \<longrightarrow> IssueType_value (type a) = normalize_type (dict_get kvs ''type'' (JStr ''other'')))"
proof (intro conjI allI impI)
  show "\<exists>t. IssueType_of (normalize_type v) = Some t" by (rule IssueType_of_normalize)
next
  show "let s = py_replace CHR '' '' CHR ''_'' (py_lower (py_strip (py_str v)))
      in (s \<in> {''bug'', ''feature_request'', ''documentation'', ''question'', ''other''}
            \<longrightarrow> normalize_type v = s)
       \<and> (s \<notin> {''bug'', ''feature_request'', ''documentation'', ''question'', ''other''}
            \<longrightarrow> normalize_type v = ''other'')"
    by (simp add: normalize_type_def Let_def IssueType_members_def)
next
  show "normalize_type (JStr ''Bug'') = ''bug''"
    by (simp add: normalize_type_def Let_def IssueType_members_def py_str_def py_strip_def
        py_isspace_def py_lower_def lower_char_def is_upper_def py_replace_def)
next
  show "normalize_type (JStr '' FEATURE REQUEST '') = ''feature_request''"
    by (simp add: normalize_type_def Let_def IssueType_members_def py_str_def py_strip_def
        py_isspace_def py_lower_def lower_char_def is_upper_def py_replace_def)
next
  show "normalize_type (JStr ''nonsense'') = ''other''"
    by (simp add: normalize_type_def Let_def IssueType_members_def py_str_def py_strip_def
        py_isspace_def py_lower_def lower_char_def is_upper_def py_replace_def)
next
  fix kvs a assume "analyze_issue pf (Loaded (JObj kvs)) = Inr a"
  then have "build_analysis pf (JObj kvs) = Inr a"
    by (simp add: analyze_issue_def split: sum.splits)
  then show "IssueType_value (type a) = normalize_type (dict_get kvs ''type'' (JStr ''other''))"
    by (rule IssueType_of_Some [OF build_analysis_Inr(1)])
qed

theorem type_normalization_witness:
  "analyze_issue strict_platform (Loaded example_reply) =
     Inr \<lparr>summary = ''Add a dark mode'', type = FEATURE_REQUEST, priority_score = ''5'',
          suggested_labels = [''enhancement'', ''ui'', ''theme'', ''css'', ''frontend''],
          potential_impact = ''Cosmetic''\<rparr>
   \<and> normalize_type (JStr '' FEATURE REQUEST '') = ''feature_request''
   \<and> py_replace CHR '' '' CHR ''_'' (py_lower (py_strip (py_str (JStr ''nonsense''))))
        \<notin> {''bug'', ''feature_request'', ''documentation'', ''question'', ''other''}
   \<and> normalize_type (JStr ''nonsense'') = ''other''"
proof -
  have s: "py_replace CHR '' '' CHR ''_'' (py_lower (py_strip (py_str (JStr ''nonsense''))))
        \<notin> {''bug'', ''feature_request'', ''documentation'', ''question'', ''other''}"
    by (simp add: py_str_def py_strip_def py_isspace_def py_lower_def lower_char_def is_upper_def
        py_replace_def)
  have "normalize_type (JStr ''nonsense'') = ''other''"
    using type_normalization [of "JStr ''nonsense''" strict_platform] s by (simp add: Let_def)
  moreover have "normalize_type (JStr '' FEATURE REQUEST '') = ''feature_request''"
    using type_normalization [of "JStr ''nonsense''" strict_platform] by blast
  ultimately show ?thesis using example_reply_run s by blast
qed

text \<open>
  C7. An analysis that \<open>analyze_issue\<close> returns has at most five labels. A list of
  eight labels is cut to its first five before the model is built, so a reply with
  eight string labels and valid texts yields an analysis with exactly those five; a reply
  without the field hands the empty list to the model.
\<close>

theorem suggested_labels_at_most_five:
  "(\<forall>a. analyze_issue pf run = Inr a \<longrightarrow> length (suggested_labels a) \<le> 5)
   \<and> (length xs = 8 \<longrightarrow> slice5 pf (JArr xs) = Inr (JArr (take 5 xs)) \<and> length (take 5 xs) = 5)
   \<and> (\<forall>ls s i.
         map_of kvs ''suggested_labels'' = Some (JArr (map JStr ls)) \<and> length ls = 8
         \<and> validate_str pf (dict_get kvs ''summary'' (JStr '''')) = Some s
         \<and> validate_str pf (dict_get kvs ''potential_impact'' (JStr '''')) = Some i
         \<longrightarrow> (\<exists>t p. analyze_issue pf (Loaded (JObj kvs)) =
                Inr \<lparr>summary = s, type = t, priority_score = p,
                     suggested_labels = take 5 ls, potential_impact = i\<rparr>)
             \<and> length (take 5 ls) = 5)
   \<and> (map_of kvs ''suggested_labels'' = None
        \<longrightarrow> slice5 pf (dict_get kvs ''suggested_labels'' (JArr [])) = Inr (JArr []))"
proof (intro conjI allI impI)
  fix a assume "analyze_issue pf run = Inr a"
  then obtain kvs' where "build_analysis pf (JObj kvs') = Inr a"
    using analyze_issue_Inr by blast
  then obtain labels where "validate_labels pf labels = Some (suggested_labels a)"
    using build_analysis_Inr(3) by blast
  then show "length (suggested_labels a) \<le> 5"
    using validate_labels_length by blast
next
  show "slice5 pf (JArr xs) = Inr (JArr (take 5 xs))"
    by (simp add: slice5_def)
next
  assume "length xs = 8"
  then show "length (take 5 xs) = 5"
    by simp
next
  fix ls s i
  assume h: "map_of kvs ''suggested_labels'' = Some (JArr (map JStr ls)) \<and> length ls = 8
         \<and> validate_str pf (dict_get kvs ''summary'' (JStr '''')) = Some s
         \<and> validate_str pf (dict_get kvs ''potential_impact'' (JStr '''')) = Some i"
  then have sl: "slice5 pf (dict_get kvs ''suggested_labels'' (JArr [])) = Inr (JArr (map JStr (take 5 ls)))"
    by (simp add: dict_get_def slice5_def take_map)
  have "those (map (validate_str pf) (map JStr (take 5 ls))) = Some (take 5 ls)"
    by (rule those_validate_strings)
  with h have vl: "validate_labels pf (JArr (map JStr (take 5 ls))) = Some (take 5 ls)"
    by (simp add: validate_labels_def)
  from build_analysis_success [OF _ sl vl] h
  obtain t where "build_analysis pf (JObj kvs) = Inr \<lparr>summary = s, type = t,
       priority_score = coerce_priority (dict_get kvs ''priority_score'' (JStr ''1'')),
       suggested_labels = take 5 ls, potential_impact = i\<rparr>"
    by blast
  then have "analyze_issue pf (Loaded (JObj kvs)) = Inr \<lparr>summary = s, type = t,
       priority_score = coerce_priority (dict_get kvs ''priority_score'' (JStr ''1'')),
       suggested_labels = take 5 ls, potential_impact = i\<rparr>"
    by (simp add: analyze_issue_Loaded)
  then show "\<exists>t p. analyze_issue pf (Loaded (JObj kvs)) =
                Inr \<lparr>summary = s, type = t, priority_score = p,
                     suggested_labels = take 5 ls, potential_impact = i\<rparr>"
    by blast
  from h show "length (take 5 ls) = 5" by simp
next
  assume "map_of kvs ''suggested_labels'' = None"
  then show "slice5 pf (dict_get kvs ''suggested_labels'' (JArr [])) = Inr (JArr [])"
    by (simp add: dict_get_def slice5_def)
qed

theorem suggested_labels_at_most_five_witness:
  "(\<exists>t p. analyze_issue strict_platform (Loaded example_reply) =
       Inr \<lparr>summary = ''Add a dark mode'', type = t, priority_score = p,
            suggested_labels = [''enhancement'', ''ui'', ''theme'', ''css'', ''frontend''],
            potential_impact = ''Cosmetic''\<rparr>)
   \<and> slice5 strict_platform (dict_get [(''summary'', JStr ''Crash on start'')] ''suggested_labels'' (JArr []))
       = Inr (JArr [])
   \<and> length (suggested_labels \<lparr>summary = ''Crash on start'', type = OTHER, priority_score = ''1'',
          suggested_labels = [''bug''], potential_impact = ''''\<rparr>) \<le> 5"
proof -
  let ?ls = "[''enhancement'', ''ui'', ''theme'', ''css'', ''frontend'', ''design'', ''a11y'', ''help wanted'']"
  let ?kvs = "[(''summary'', JStr ''Add a dark mode''),
      (''type'', JStr '' FEATURE REQUEST ''),
      (''priority_score'', JInt 5),
      (''suggested_labels'', JArr (map JStr ?ls)),
      (''potential_impact'', JStr ''Cosmetic'')]"
  have k: "map_of ?kvs ''suggested_labels'' = Some (JArr (map JStr ?ls))" by simp
  have l: "length ?ls = 8" by simp
  have s: "validate_str strict_platform (dict_get ?kvs ''summary'' (JStr '''')) = Some ''Add a dark mode''"
    by (simp add: validate_str_def dict_get_def)
  have i: "validate_str strict_platform (dict_get ?kvs ''potential_impact'' (JStr '''')) = Some ''Cosmetic''"
    by (simp add: validate_str_def dict_get_def)
  have n: "map_of [(''summary'', JStr ''Crash on start'')] ''suggested_labels'' = None" by simp
  note inst = suggested_labels_at_most_five [of strict_platform "Loaded example_reply_defaults" "map JStr ?ls" ?kvs]
  note inst2 = suggested_labels_at_most_five [of strict_platform "Loaded example_reply_defaults" "[]"
      "[(''summary'', JStr ''Crash on start'')]"]
  from inst k l s i
  have a: "\<exists>t p. analyze_issue strict_platform (Loaded (JObj ?kvs)) =
       Inr \<lparr>summary = ''Add a dark mode'', type = t, priority_score = p,
            suggested_labels = take 5 ?ls, potential_impact = ''Cosmetic''\<rparr>"
    by blast
  from inst2 n
  have b: "slice5 strict_platform (dict_get [(''summary'', JStr ''Crash on start'')] ''suggested_labels'' (JArr []))
       = Inr (JArr [])"
    by blast
  from inst example_reply_defaults_run
  have c: "length (suggested_labels \<lparr>summary = ''Crash on start'', type = OTHER, priority_score = ''1'',
          suggested_labels = [''bug''], potential_impact = ''''\<rparr>) \<le> 5"
    by blast
  from a b c show ?thesis by (simp add: example_reply_def)
qed

text \<open>
  C10. An analysis is returned only for a reply that parses to a JSON object. For
  such a reply: when \<open>type\<close> is missing, the type computed is \<open>other\<close> and a returned analysis
  has type \<open>OTHER\<close>; when \<open>priority_score\<close> is missing, the score is the string \<open>"1"\<close>; an
  integer score is replaced by its decimal text (5 by \<open>"5"\<close>) and a float by its \<open>repr\<close>.
  The analysis is returned whenever the summary, the labels and the impact validate.
\<close>

theorem missing_type_and_priority_defaults:
  "(\<forall>j a. analyze_issue pf (Loaded j) = Inr a \<longrightarrow> (\<exists>kvs'. j = JObj kvs'))
   \<and> (\<forall>a. analyze_issue pf (Loaded (JObj kvs)) = Inr a \<longrightarrow>
        (map_of kvs ''type'' = None \<longrightarrow> type a = OTHER)
      \<and> (map_of kvs ''priority_score'' = None \<longrightarrow> priority_score a = ''1'')
      \<and> (\<forall>n. map_of kvs ''priority_score'' = Some (JInt n) \<longrightarrow> priority_score a = str_int n)
      \<and> (\<forall>r. map_of kvs ''priority_score'' = Some (JFloat r) \<longrightarrow> priority_score a = r))
   \<and> (\<forall>s labels ls i.
         validate_str pf (dict_get kvs ''summary'' (JStr '''')) = Some s
         \<and> slice5 pf (dict_get kvs ''suggested_labels'' (JArr [])) = Inr labels
         \<and> validate_labels pf labels = Some ls
         \<and> validate_str pf (dict_get kvs ''potential_impact'' (JStr '''')) = Some i
         \<longrightarrow> (\<exists>a. analyze_issue pf (Loaded (JObj kvs)) = Inr a))
   \<and> (map_of kvs ''type'' = None \<longrightarrow> normalize_type (dict_get kvs ''type'' (JStr ''other'')) = ''other'')
   \<and> (map_of kvs ''priority_score'' = None \<longrightarrow>
         coerce_priority (dict_get kvs ''priority_score'' (JStr ''1'')) = ''1'')
   \<and> coerce_priority (JInt 5) = ''5''"
proof -
  have other: "normalize_type (JStr ''other'') = ''other''"
    by (simp add: normalize_type_def Let_def IssueType_members_def py_str_def py_strip_def
        py_isspace_def py_lower_def lower_char_def is_upper_def py_replace_def)
  have other_member: "IssueType_of ''other'' = Some OTHER"
    by (simp add: IssueType_of_def IssueType_members_def)
  have five: "coerce_priority (JInt 5) = ''5''"
    by (simp add: coerce_priority_def py_str_def str_int_def str_nat.simps)
  have key:
    "\<And>a. analyze_issue pf (Loaded (JObj kvs)) = Inr a \<Longrightarrow>
       IssueType_of (normalize_type (dict_get kvs ''type'' (JStr ''other''))) = Some (type a)"
    "\<And>a. analyze_issue pf (Loaded (JObj kvs)) = Inr a \<Longrightarrow>
       priority_score a = coerce_priority (dict_get kvs ''priority_score'' (JStr ''1''))"
    by (auto simp: analyze_issue_Loaded split: sum.splits dest: build_analysis_Inr(1,2))
  show ?thesis
  proof (intro conjI allI impI)
    fix j a assume "analyze_issue pf (Loaded j) = Inr a"
    then show "\<exists>kvs'. j = JObj kvs'"
      using analyze_issue_Inr by blast
  next
    fix a assume "analyze_issue pf (Loaded (JObj kvs)) = Inr a" and "map_of kvs ''type'' = None"
    with key(1) [of a] other other_member show "type a = OTHER"
      by (simp add: dict_get_def)
  next
    fix a assume "analyze_issue pf (Loaded (JObj kvs)) = Inr a" and "map_of kvs ''priority_score'' = None"
    with key(2) [of a] show "priority_score a = ''1''"
      by (simp add: dict_get_def coerce_priority_def)
  next
    fix a n assume "analyze_issue pf (Loaded (JObj kvs)) = Inr a"
      and "map_of kvs ''priority_score'' = Some (JInt n)"
    with key(2) [of a] show "priority_score a = str_int n"
      by (simp add: dict_get_def coerce_priority_def py_str_def)
  next
    fix a r assume "analyze_issue pf (Loaded (JObj kvs)) = Inr a"
      and "map_of kvs ''priority_score'' = Some (JFloat r)"
    with key(2) [of a] show "priority_score a = r"
      by (simp add: dict_get_def coerce_priority_def py_str_def)
  next
    fix s labels ls i
    assume "validate_str pf (dict_get kvs ''summary'' (JStr '''')) = Some s
         \<and> slice5 pf (dict_get kvs ''suggested_labels'' (JArr [])) = Inr labels
         \<and> validate_labels pf labels = Some ls
         \<and> validate_str pf (dict_get kvs ''potential_impact'' (JStr '''')) = Some i"
    then obtain t where "build_analysis pf (JObj kvs) = Inr \<lparr>summary = s, type = t,
       priority_score = coerce_priority (dict_get kvs ''priority_score'' (JStr ''1'')),
       suggested_labels = ls, potential_impact = i\<rparr>"
      using build_analysis_success [of pf kvs s labels ls i] by blast
    then show "\<exists>a. analyze_issue pf (Loaded (JObj kvs)) = Inr a"
      by (simp add: analyze_issue_Loaded)
  next
    assume "map_of kvs ''type'' = None"
    with other show "normalize_type (dict_get kvs ''type'' (JStr ''other'')) = ''other''"
      by (simp add: dict_get_def)
  next
    assume "map_of kvs ''priority_score'' = None"
    then show "coerce_priority (dict_get kvs ''priority_score'' (JStr ''1'')) = ''1''"
      by (simp add: dict_get_def coerce_priority_def)
  next
    show "coerce_priority (JInt 5) = ''5''" by (rule five)
  qed
qed

theorem missing_type_and_priority_defaults_witness:
  "analyze_issue strict_platform (Loaded example_reply_defaults) =
     Inr \<lparr>summary = ''Crash on start'', type = OTHER, priority_score = ''1'',
          suggested_labels = [''bug''], potential_impact = ''''\<rparr>
   \<and> type \<lparr>summary = ''Crash on start'', type = OTHER, priority_score = ''1'',
          suggested_labels = [''bug''], potential_impact = ''''\<rparr> = OTHER
   \<and> priority_score \<lparr>summary = ''Crash on start'', type = OTHER, priority_score = ''1'',
          suggested_labels = [''bug''], potential_impact = ''''\<rparr> = ''1''
   \<and> (\<exists>a. analyze_issue strict_platform (Loaded example_reply) = Inr a \<and> priority_score a = str_int 5)"
proof -
  let ?d = "[(''summary'', JStr ''Crash on start''), (''suggested_labels'', JArr [JStr ''bug''])]"
  let ?kvs = "[(''summary'', JStr ''Add a dark mode''),
      (''type'', JStr '' FEATURE REQUEST ''),
      (''priority_score'', JInt 5),
      (''suggested_labels'', JArr (map JStr
         [''enhancement'', ''ui'', ''theme'', ''css'', ''frontend'', ''design'', ''a11y'', ''help wanted''])),
      (''potential_impact'', JStr ''Cosmetic'')]"
  have run: "analyze_issue strict_platform (Loaded (JObj ?d)) =
     Inr \<lparr>summary = ''Crash on start'', type = OTHER, priority_score = ''1'',
          suggested_labels = [''bug''], potential_impact = ''''\<rparr>"
    using example_reply_defaults_run by (simp add: example_reply_defaults_def)
  have t: "map_of ?d ''type'' = None" and p: "map_of ?d ''priority_score'' = None"
    by simp_all
  from missing_type_and_priority_defaults [of strict_platform ?d] run t p
  have a: "type \<lparr>summary = ''Crash on start'', type = OTHER, priority_score = ''1'',
          suggested_labels = [''bug''], potential_impact = ''''\<rparr> = OTHER
     \<and> priority_score \<lparr>summary = ''Crash on start'', type = OTHER, priority_score = ''1'',
          suggested_labels = [''bug''], potential_impact = ''''\<rparr> = ''1''"
    by blast
  have run2: "\<exists>a. analyze_issue strict_platform (Loaded (JObj ?kvs)) = Inr a"
    using example_reply_run by (simp add: example_reply_def)
  have n: "map_of ?kvs ''priority_score'' = Some (JInt 5)" by simp
  from missing_type_and_priority_defaults [of strict_platform ?kvs] run2 n
  have b: "\<exists>a. analyze_issue strict_platform (Loaded (JObj ?kvs)) = Inr a \<and> priority_score a = str_int 5"
    by blast
  from run a b show ?thesis
    by (simp add: example_reply_def example_reply_defaults_def)
qed

lemma post_analyze_github_unreachable:
  assumes "issue_number req > 0"
    and "extract_owner_repo (repo_url req) = Inr (owner, repo)"
    and "cache (github_client a) (owner, repo, issue_number req) = None"
    and "issue_reply env = RequestError x"
  shows "fst (post_analyze pf a env run req) =
     JSONResponse 503
       (JObj [(''detail'', JStr (''Failed to connect to GitHub API: '' @ x)),
              (''status_code'', JInt 503)])"
  using assms
  by (simp add: post_analyze_def analyze_issue_route_def get_issue_data_def cache_get_def
      get_issue_def http_exception_handler_def py_str_def)

lemma post_analyze_analysis_error:
  assumes "issue_number req > 0"
    and "extract_owner_repo (repo_url req) = Inr (owner, repo)"
    and "get_issue_data pf (github_client a) env owner repo (issue_number req) = (Inr d, c, calls)"
    and "llm_analyzer a = Some an"
    and "analyze_issue pf run = Inl e"
  shows "fst (post_analyze pf a env run req) =
     JSONResponse 500
       (JObj [(''detail'',
               JObj [(''detail'', JStr (''An error occurred while processing your request: '' @ exn_str e)),
                     (''error_type'', JStr ''analysis_error''),
                     (''metadata'', JNull)]),
              (''status_code'', JInt 500)])"
  using post_analyze_fetched [OF assms(1-4), of run] assms(5) by simp

lemma analyze_issue_not_json:
  "analyze_issue pf (LoadsRaised (Error JSONDecodeError m)) =
     Inl (Error ValueError (''Failed to parse LLM response: '' @ m))"
  by (simp add: analyze_issue_def analysis_handlers_def)

lemma analyze_issue_other_error:
  "cls \<noteq> JSONDecodeError \<Longrightarrow>
     analyze_issue pf (ProviderRaised (Error cls x)) =
       Inl (Error Exception (''Error during LLM analysis: '' @ x))
     \<and> analyze_issue pf (LoadsRaised (Error cls x)) =
       Inl (Error Exception (''Error during LLM analysis: '' @ x))"
  by (simp add: analyze_issue_def analysis_handlers_generic)

lemma analyze_issue_after_parse:
  assumes "analyze_issue pf (Loaded j) = Inl e"
  shows "\<exists>x. e = Error Exception (''Error during LLM analysis: '' @ x)"
proof -
  from assms obtain e' where e': "build_analysis pf j = Inl e'" and e: "e = analysis_handlers e'"
    by (auto simp: analyze_issue_Loaded split: sum.splits)
  obtain cls x where "e' = Error cls x" by (cases e')
  with e' e build_analysis_error_class [of pf j cls x] show ?thesis
    by (auto simp: analysis_handlers_generic)
qed

text \<open>
  C3, as the code has it. A reply on which \<open>json.loads\<close> raises \<open>JSONDecodeError\<close> makes
  \<open>analyze_issue\<close> raise a \<open>ValueError\<close> "Failed to parse LLM response", never an analysis.
  A failed provider call, any other exception of \<open>json.loads\<close> and every failure after a
  successful parse raise the plain \<open>Exception\<close> "Error during LLM analysis" instead. The
  endpoint answers every failure of the analyzer alike, with status 500 and an
  \<open>analysis_error\<close> envelope that carries the text of the exception, so that the answer to
  a malformed reply differs from the others by that text only; it answers 503 when GitHub
  cannot be reached, and the handler for unexpected exceptions never gives this envelope.
\<close>

theorem malformed_reply_is_value_error:
  "analyze_issue pf (LoadsRaised (Error JSONDecodeError m)) =
      Inl (Error ValueError (''Failed to parse LLM response: '' @ m))
   \<and> (\<forall>cls x. cls \<noteq> JSONDecodeError \<longrightarrow>
         analyze_issue pf (ProviderRaised (Error cls x)) =
           Inl (Error Exception (''Error during LLM analysis: '' @ x))
       \<and> analyze_issue pf (LoadsRaised (Error cls x)) =
           Inl (Error Exception (''Error during LLM analysis: '' @ x)))
   \<and> (\<forall>j e. analyze_issue pf (Loaded j) = Inl e \<longrightarrow>
         (\<exists>x. e = Error Exception (''Error during LLM analysis: '' @ x)))
   \<and> (\<forall>(req :: GitHubIssueRequest) (a :: app) (env :: fetch_env) owner repo d c calls an.
         issue_number req > 0
         \<and> extract_owner_repo (repo_url req) = Inr (owner, repo)
         \<and> get_issue_data pf (github_client a) env owner repo (issue_number req) = (Inr d, c, calls)
         \<and> llm_analyzer a = Some an
         \<longrightarrow> (\<forall>run e. analyze_issue pf run = Inl e
                 \<longrightarrow> fst (post_analyze pf a env run req) =
                       JSONResponse 500
                         (JObj [(''detail'',
                                 JObj [(''detail'', JStr (''An error occurred while processing your request: '' @ exn_str e)),
                                       (''error_type'', JStr ''analysis_error''),
                                       (''metadata'', JNull)]),
                                (''status_code'', JInt 500)]))
           \<and> fst (post_analyze pf a env (LoadsRaised (Error JSONDecodeError m)) req) =
               JSONResponse 500
                 (JObj [(''detail'',
                         JObj [(''detail'', JStr (''An error occurred while processing your request: Failed to parse LLM response: '' @ m)),
                               (''error_type'', JStr ''analysis_error''),
                               (''metadata'', JNull)]),
                        (''status_code'', JInt 500)])
           \<and> (\<forall>run x. analyze_issue pf run = Inl (Error Exception (''Error during LLM analysis: '' @ x))
                 \<longrightarrow> fst (post_analyze pf a env run req)
                       \<noteq> fst (post_analyze pf a env (LoadsRaised (Error JSONDecodeError m)) req)))
   \<and> (\<forall>(req :: GitHubIssueRequest) (a :: app) (env :: fetch_env) owner repo x run.
         issue_number req > 0
         \<and> extract_owner_repo (repo_url req) = Inr (owner, repo)
         \<and> cache (github_client a) (owner, repo, issue_number req) = None
         \<and> issue_reply env = RequestError x
         \<longrightarrow> fst (post_analyze pf a env run req) =
               JSONResponse 503
                 (JObj [(''detail'', JStr (''Failed to connect to GitHub API: '' @ x)),
                        (''status_code'', JInt 503)]))
   \<and> (\<forall>e body. global_exception_handler e \<noteq>
         JSONResponse 500 (JObj [(''detail'', JObj body), (''status_code'', JInt 500)]))"
proof -
  have surfaced: "\<forall>(req :: GitHubIssueRequest) (a :: app) (env :: fetch_env) owner repo d c calls an.
         issue_number req > 0
         \<and> extract_owner_repo (repo_url req) = Inr (owner, repo)
         \<and> get_issue_data pf (github_client a) env owner repo (issue_number req) = (Inr d, c, calls)
         \<and> llm_analyzer a = Some an
         \<longrightarrow> (\<forall>run e. analyze_issue pf run = Inl e
                 \<longrightarrow> fst (post_analyze pf a env run req) =
                       JSONResponse 500
                         (JObj [(''detail'',
                                 JObj [(''detail'', JStr (''An error occurred while processing your request: '' @ exn_str e)),
                                       (''error_type'', JStr ''analysis_error''),
                                       (''metadata'', JNull)]),
                                (''status_code'', JInt 500)]))
           \<and> fst (post_analyze pf a env (LoadsRaised (Error JSONDecodeError m)) req) =
               JSONResponse 500
                 (JObj [(''detail'',
                         JObj [(''detail'', JStr (''An error occurred while processing your request: Failed to parse LLM response: '' @ m)),
                               (''error_type'', JStr ''analysis_error''),
                               (''metadata'', JNull)]),
                        (''status_code'', JInt 500)])
           \<and> (\<forall>run x. analyze_issue pf run = Inl (Error Exception (''Error during LLM analysis: '' @ x))
                 \<longrightarrow> fst (post_analyze pf a env run req)
                       \<noteq> fst (post_analyze pf a env (LoadsRaised (Error JSONDecodeError m)) req))"
  proof (intro allI impI)
    fix req :: GitHubIssueRequest and a :: app and env :: fetch_env and owner repo d c calls an
    assume h: "issue_number req > 0
         \<and> extract_owner_repo (repo_url req) = Inr (owner, repo)
         \<and> get_issue_data pf (github_client a) env owner repo (issue_number req) = (Inr d, c, calls)
         \<and> llm_analyzer a = Some an"
    then have p: "\<And>run e. analyze_issue pf run = Inl e \<Longrightarrow>
        fst (post_analyze pf a env run req) =
          JSONResponse 500
            (JObj [(''detail'',
                    JObj [(''detail'', JStr (''An error occurred while processing your request: '' @ exn_str e)),
                          (''error_type'', JStr ''analysis_error''),
                          (''metadata'', JNull)]),
                   (''status_code'', JInt 500)])"
      using post_analyze_analysis_error [of req owner repo pf a env d c calls an] by blast
    have one: "\<forall>run e. analyze_issue pf run = Inl e
                 \<longrightarrow> fst (post_analyze pf a env run req) =
                       JSONResponse 500
                         (JObj [(''detail'',
                                 JObj [(''detail'', JStr (''An error occurred while processing your request: '' @ exn_str e)),
                                       (''error_type'', JStr ''analysis_error''),
                                       (''metadata'', JNull)]),
                                (''status_code'', JInt 500)])"
      using p by blast
    have two: "fst (post_analyze pf a env (LoadsRaised (Error JSONDecodeError m)) req) =
               JSONResponse 500
                 (JObj [(''detail'',
                         JObj [(''detail'', JStr (''An error occurred while processing your request: Failed to parse LLM response: '' @ m)),
                               (''error_type'', JStr ''analysis_error''),
                               (''metadata'', JNull)]),
                        (''status_code'', JInt 500)])"
      using p [OF analyze_issue_not_json [of pf m]] by simp
    have three: "\<forall>run x. analyze_issue pf run = Inl (Error Exception (''Error during LLM analysis: '' @ x))
                 \<longrightarrow> fst (post_analyze pf a env run req)
                       \<noteq> fst (post_analyze pf a env (LoadsRaised (Error JSONDecodeError m)) req)"
    proof (intro allI impI)
      fix run x
      assume "analyze_issue pf run = Inl (Error Exception (''Error during LLM analysis: '' @ x))"
      from p [OF this] two
      show "fst (post_analyze pf a env run req)
                       \<noteq> fst (post_analyze pf a env (LoadsRaised (Error JSONDecodeError m)) req)"
        by simp
    qed
    from one two three
    show "(\<forall>run e. analyze_issue pf run = Inl e
                 \<longrightarrow> fst (post_analyze pf a env run req) =
                       JSONResponse 500
                         (JObj [(''detail'',
                                 JObj [(''detail'', JStr (''An error occurred while processing your request: '' @ exn_str e)),
                                       (''error_type'', JStr ''analysis_error''),
                                       (''metadata'', JNull)]),
                                (''status_code'', JInt 500)]))
           \<and> fst (post_analyze pf a env (LoadsRaised (Error JSONDecodeError m)) req) =
               JSONResponse 500
                 (JObj [(''detail'',
                         JObj [(''detail'', JStr (''An error occurred while processing your request: Failed to parse LLM response: '' @ m)),
                               (''error_type'', JStr ''analysis_error''),
                               (''metadata'', JNull)]),
                        (''status_code'', JInt 500)])
           \<and> (\<forall>run x. analyze_issue pf run = Inl (Error Exception (''Error during LLM analysis: '' @ x))
                 \<longrightarrow> fst (post_analyze pf a env run req)
                       \<noteq> fst (post_analyze pf a env (LoadsRaised (Error JSONDecodeError m)) req))"
      by (intro conjI)
  qed
  have other: "\<forall>cls x. cls \<noteq> JSONDecodeError \<longrightarrow>
         analyze_issue pf (ProviderRaised (Error cls x)) =
           Inl (Error Exception (''Error during LLM analysis: '' @ x))
       \<and> analyze_issue pf (LoadsRaised (Error cls x)) =
           Inl (Error Exception (''Error during LLM analysis: '' @ x))"
    using analyze_issue_other_error by blast
  have parsed: "\<forall>j e. analyze_issue pf (Loaded j) = Inl e \<longrightarrow>
         (\<exists>x. e = Error Exception (''Error during LLM analysis: '' @ x))"
    using analyze_issue_after_parse by blast
  have unreachable: "\<forall>(req :: GitHubIssueRequest) (a :: app) (env :: fetch_env) owner repo x run.
         issue_number req > 0
         \<and> extract_owner_repo (repo_url req) = Inr (owner, repo)
         \<and> cache (github_client a) (owner, repo, issue_number req) = None
         \<and> issue_reply env = RequestError x
         \<longrightarrow> fst (post_analyze pf a env run req) =
               JSONResponse 503
                 (JObj [(''detail'', JStr (''Failed to connect to GitHub API: '' @ x)),
                        (''status_code'', JInt 503)])"
    by (simp add: post_analyze_github_unreachable)
  have unexpected: "\<forall>e body. global_exception_handler e \<noteq>
         JSONResponse 500 (JObj [(''detail'', JObj body), (''status_code'', JInt 500)])"
    by (simp add: global_exception_handler_def)
  from analyze_issue_not_json [of pf m] other parsed surfaced unreachable unexpected
  show ?thesis by (intro conjI)
qed

theorem malformed_reply_is_value_error_witness:
  "analyze_issue strict_platform (LoadsRaised (Error JSONDecodeError ''Expecting value: line 1 column 1 (char 0)'')) =
      Inl (Error ValueError (''Failed to parse LLM response: '' @ ''Expecting value: line 1 column 1 (char 0)''))
   \<and> analyze_issue strict_platform (ProviderRaised (Error Other ''Connection error.'')) =
      Inl (Error Exception (''Error during LLM analysis: '' @ ''Connection error.''))
   \<and> fst (post_analyze strict_platform example_app example_env
            (LoadsRaised (Error JSONDecodeError ''Expecting value: line 1 column 1 (char 0)'')) example_request) =
        JSONResponse 500
          (JObj [(''detail'',
                  JObj [(''detail'', JStr (''An error occurred while processing your request: Failed to parse LLM response: '' @ ''Expecting value: line 1 column 1 (char 0)'')),
                        (''error_type'', JStr ''analysis_error''),
                        (''metadata'', JNull)]),
                 (''status_code'', JInt 500)])
   \<and> fst (post_analyze strict_platform example_app example_env
            (ProviderRaised (Error Other ''Connection error.'')) example_request)
       \<noteq> fst (post_analyze strict_platform example_app example_env
            (LoadsRaised (Error JSONDecodeError ''Expecting value: line 1 column 1 (char 0)'')) example_request)
   \<and> fst (post_analyze strict_platform example_app example_env_within
            (LoadsRaised (Error JSONDecodeError ''Expecting value: line 1 column 1 (char 0)'')) example_request) =
        JSONResponse 503
          (JObj [(''detail'', JStr (''Failed to connect to GitHub API: '' @ ''offline'')),
                 (''status_code'', JInt 503)])"
proof -
  have pos: "issue_number example_request > 0"
    by (simp add: example_request_def)
  have an: "llm_analyzer example_app = Some \<lparr>provider = ''openai''\<rparr>"
    by (simp add: example_app_def)
  have cls: "Other \<noteq> JSONDecodeError"
    by simp
  have miss: "cache (github_client example_app) (''facebook'', ''react'', issue_number example_request) = None"
    by (simp add: example_app_def example_client_def)
  have off: "issue_reply example_env_within = RequestError ''offline''"
    by (simp add: example_env_within_def)
  note inst = malformed_reply_is_value_error
    [of strict_platform "''Expecting value: line 1 column 1 (char 0)''"]
  note a = inst [THEN conjunct1]
  note b = inst [THEN conjunct2, THEN conjunct1, rule_format, OF cls, of "''Connection error.''",
      THEN conjunct1]
  note c = inst [THEN conjunct2, THEN conjunct2, THEN conjunct2, THEN conjunct1, rule_format,
      OF conjI [OF pos conjI [OF example_extract conjI [OF example_fetch an]]]]
  note c1 = c [THEN conjunct2, THEN conjunct1]
  note c2 = c [THEN conjunct2, THEN conjunct2, rule_format, OF b]
  note d = inst [THEN conjunct2, THEN conjunct2, THEN conjunct2, THEN conjunct2, THEN conjunct1,
      rule_format, OF conjI [OF pos conjI [OF example_extract conjI [OF miss off]]]]
  from a b c1 c2 d show ?thesis by (intro conjI)
qed

text \<open>
  C3 as stated does not hold. A reply of 200000 opening brackets is not JSON, yet
  \<open>json.loads\<close> raises \<open>RecursionError\<close> on it and \<open>analyze_issue\<close> the plain \<open>Exception\<close>. And
  the endpoint answers a malformed reply and a failed provider call with the same status
  500 and the same \<open>analysis_error\<close> tag.
\<close>

theorem malformed_reply_counterexample:
  "analyze_issue strict_platform
      (LoadsRaised (Error Other ''maximum recursion depth exceeded while decoding a JSON array from a unicode string'')) =
     Inl (Error Exception (''Error during LLM analysis: maximum recursion depth exceeded while decoding a JSON array from a unicode string''))
   \<and> fst (post_analyze strict_platform example_app example_env
            (LoadsRaised (Error JSONDecodeError ''Expecting value: line 1 column 1 (char 0)'')) example_request) =
        JSONResponse 500
          (JObj [(''detail'',
                  JObj [(''detail'', JStr ''An error occurred while processing your request: Failed to parse LLM response: Expecting value: line 1 column 1 (char 0)''),
                        (''error_type'', JStr ''analysis_error''),
                        (''metadata'', JNull)]),
                 (''status_code'', JInt 500)])
   \<and> fst (post_analyze strict_platform example_app example_env
            (ProviderRaised (Error Other ''Connection error.'')) example_request) =
        JSONResponse 500
          (JObj [(''detail'',
                  JObj [(''detail'', JStr ''An error occurred while processing your request: Error during LLM analysis: Connection error.''),
                        (''error_type'', JStr ''analysis_error''),
                        (''metadata'', JNull)]),
                 (''status_code'', JInt 500)])"
proof -
  have pos: "issue_number example_request > 0"
    by (simp add: example_request_def)
  have an: "llm_analyzer example_app = Some \<lparr>provider = ''openai''\<rparr>"
    by (simp add: example_app_def)
  note p = post_analyze_fetched [OF pos example_extract example_fetch an]
  show ?thesis
    by (simp add: p analyze_issue_def analysis_handlers_def)
qed

text \<open>
  C9. When the parsed reply has no \<open>suggested_labels\<close> or has the empty list there,
  \<open>analyze_issue\<close> raises the plain \<open>Exception\<close> "Error during LLM analysis": for a JSON
  object the constructor of \<open>IssueAnalysis\<close> receives an empty list and \<open>min_items=1\<close>
  fails. The endpoint answers with status 500 and an \<open>analysis_error\<close> envelope. Conversely,
  an analysis is returned only for a JSON object whose \<open>suggested_labels\<close> is a non-empty
  list.
\<close>

theorem empty_labels_rejected:
  assumes "\<forall>kvs. j = JObj kvs \<longrightarrow>
     map_of kvs ''suggested_labels'' = None \<or> map_of kvs ''suggested_labels'' = Some (JArr [])"
  shows "(\<exists>x. analyze_issue pf (Loaded j) = Inl (Error Exception (''Error during LLM analysis: '' @ x)))
    \<and> (\<forall>run a. analyze_issue pf run = Inr a \<longrightarrow>
          (\<exists>kvs xs. run = Loaded (JObj kvs) \<and> map_of kvs ''suggested_labels'' = Some (JArr xs) \<and> xs \<noteq> []))
    \<and> (\<forall>req a env owner repo d c calls an.
          issue_number req > 0
          \<and> extract_owner_repo (repo_url req) = Inr (owner, repo)
          \<and> get_issue_data pf (github_client a) env owner repo (issue_number req) = (Inr d, c, calls)
          \<and> llm_analyzer a = Some an
          \<longrightarrow> (\<exists>x. fst (post_analyze pf a env (Loaded j) req) =
                 JSONResponse 500
                   (JObj [(''detail'',
                           JObj [(''detail'', JStr (''An error occurred while processing your request: Error during LLM analysis: '' @ x)),
                                 (''error_type'', JStr ''analysis_error''),
                                 (''metadata'', JNull)]),
                          (''status_code'', JInt 500)])))"
proof -
  have run: "\<exists>x. analyze_issue pf (Loaded j) = Inl (Error Exception (''Error during LLM analysis: '' @ x))"
  proof (cases "\<exists>kvs. j = JObj kvs")
    case True
    then obtain kvs where j: "j = JObj kvs" by blast
    with assms have "map_of kvs ''suggested_labels'' = None \<or> map_of kvs ''suggested_labels'' = Some (JArr [])"
      by blast
    then have labels: "slice5 pf (dict_get kvs ''suggested_labels'' (JArr [])) = Inr (JArr [])"
      by (auto simp: dict_get_def slice5_def)
    obtain t where t: "IssueType_of (normalize_type (dict_get kvs ''type'' (JStr ''other''))) = Some t"
      using IssueType_of_normalize by blast
    have "build_analysis pf (JObj kvs) =
        Inl (Error Other (failure_text pf (InvalidModel (dict_get kvs ''summary'' (JStr '''')) (JArr [])
               (dict_get kvs ''potential_impact'' (JStr '''')))))"
      using labels t
      by (simp add: build_analysis_def Let_def IssueAnalysis_new_def validate_labels_def
          split: option.splits)
    with j show ?thesis
      by (simp add: analyze_issue_Loaded analysis_handlers_def)
  next
    case False
    then have "build_analysis pf j = Inl (Error Other (failure_text pf (NoGetAttribute j)))"
      by (cases j) (simp_all add: build_analysis_def)
    then show ?thesis
      by (simp add: analyze_issue_Loaded analysis_handlers_def)
  qed
  have conv: "\<And>run a. analyze_issue pf run = Inr a \<Longrightarrow>
      \<exists>kvs xs. run = Loaded (JObj kvs) \<and> map_of kvs ''suggested_labels'' = Some (JArr xs) \<and> xs \<noteq> []"
  proof -
    fix run a assume "analyze_issue pf run = Inr a"
    then obtain kvs where r: "run = Loaded (JObj kvs)" and b: "build_analysis pf (JObj kvs) = Inr a"
      using analyze_issue_Inr by blast
    from build_analysis_Inr(3) [OF b] obtain labels where
      s: "slice5 pf (dict_get kvs ''suggested_labels'' (JArr [])) = Inr labels"
      and v: "validate_labels pf labels = Some (suggested_labels a)"
      by blast
    from v obtain ys where ys: "labels = JArr ys" and "1 \<le> length ys"
      by (cases labels) (auto simp: validate_labels_def split: if_splits)
    with s obtain xs where "dict_get kvs ''suggested_labels'' (JArr []) = JArr xs" and "xs \<noteq> []"
      by (cases "dict_get kvs ''suggested_labels'' (JArr [])") (auto simp: slice5_def Suc_le_eq)
    then have "map_of kvs ''suggested_labels'' = Some (JArr xs) \<and> xs \<noteq> []"
      by (cases "map_of kvs ''suggested_labels''") (auto simp: dict_get_def)
    with r show "\<exists>kvs xs. run = Loaded (JObj kvs) \<and> map_of kvs ''suggested_labels'' = Some (JArr xs) \<and> xs \<noteq> []"
      by blast
  qed
  show ?thesis
  proof (intro conjI allI impI)
    show "\<exists>x. analyze_issue pf (Loaded j) = Inl (Error Exception (''Error during LLM analysis: '' @ x))"
      by (rule run)
  next
    fix run a assume "analyze_issue pf run = Inr a"
    then show "\<exists>kvs xs. run = Loaded (JObj kvs) \<and> map_of kvs ''suggested_labels'' = Some (JArr xs) \<and> xs \<noteq> []"
      by (rule conv)
  next
    fix req :: GitHubIssueRequest and a :: app and env :: fetch_env and owner repo d c calls an
    assume h: "issue_number req > 0
          \<and> extract_owner_repo (repo_url req) = Inr (owner, repo)
          \<and> get_issue_data pf (github_client a) env owner repo (issue_number req) = (Inr d, c, calls)
          \<and> llm_analyzer a = Some an"
    then have "post_analyze pf a env (Loaded j) req =
     ((case analyze_issue pf (Loaded j) of
         Inl e \<Rightarrow>
           JSONResponse 500
             (JObj [(''detail'',
                     JObj [(''detail'', JStr (''An error occurred while processing your request: '' @ exn_str e)),
                           (''error_type'', JStr ''analysis_error''),
                           (''metadata'', JNull)]),
                    (''status_code'', JInt 500)])
       | Inr x \<Rightarrow> JSONResponse 200 (IssueAnalysis_json x)),
      a\<lparr>github_client := c\<rparr>, calls)"
      by (intro post_analyze_fetched) auto
    with run show "\<exists>x. fst (post_analyze pf a env (Loaded j) req) =
                 JSONResponse 500
                   (JObj [(''detail'',
                           JObj [(''detail'', JStr (''An error occurred while processing your request: Error during LLM analysis: '' @ x)),
                                 (''error_type'', JStr ''analysis_error''),
                                 (''metadata'', JNull)]),
                          (''status_code'', JInt 500)])"
      by auto
  qed
qed

theorem empty_labels_rejected_witness:
  "map_of [(''summary'', JStr ''Crash on start'')] ''suggested_labels'' = None
   \<and> (\<exists>x. analyze_issue strict_platform (Loaded (JObj [(''summary'', JStr ''Crash on start'')])) =
          Inl (Error Exception (''Error during LLM analysis: '' @ x)))
   \<and> (\<exists>x. fst (post_analyze strict_platform example_app example_env
                 (Loaded (JObj [(''summary'', JStr ''Crash on start'')])) example_request) =
          JSONResponse 500
            (JObj [(''detail'',
                    JObj [(''detail'', JStr (''An error occurred while processing your request: Error during LLM analysis: '' @ x)),
                          (''error_type'', JStr ''analysis_error''),
                          (''metadata'', JNull)]),
                   (''status_code'', JInt 500)]))"
proof -
  have absent: "map_of [(''summary'', JStr ''Crash on start'')] ''suggested_labels'' = None"
    by simp
  have pos: "issue_number example_request > 0"
    by (simp add: example_request_def)
  have an: "llm_analyzer example_app = Some \<lparr>provider = ''openai''\<rparr>"
    by (simp add: example_app_def)
  have every: "\<forall>kvs. JObj [(''summary'', JStr ''Crash on start'')] = JObj kvs \<longrightarrow>
      map_of kvs ''suggested_labels'' = None \<or> map_of kvs ''suggested_labels'' = Some (JArr [])"
    by simp
  note inst = empty_labels_rejected [of "JObj [(''summary'', JStr ''Crash on start'')]" strict_platform,
      OF every]
  from inst have a: "\<exists>x. analyze_issue strict_platform (Loaded (JObj [(''summary'', JStr ''Crash on start'')])) =
          Inl (Error Exception (''Error during LLM analysis: '' @ x))"
    by (rule conjunct1)
  from inst [THEN conjunct2, THEN conjunct2] pos example_extract example_fetch an
  have b: "\<exists>x. fst (post_analyze strict_platform example_app example_env
                 (Loaded (JObj [(''summary'', JStr ''Crash on start'')])) example_request) =
          JSONResponse 500
            (JObj [(''detail'',
                    JObj [(''detail'', JStr (''An error occurred while processing your request: Error during LLM analysis: '' @ x)),
                          (''error_type'', JStr ''analysis_error''),
                          (''metadata'', JNull)]),
                   (''status_code'', JInt 500)])"
    by blast
  from absent a b show ?thesis by blast
qed

section \<open>The GitHub client\<close>

text \<open>
  C4. A 404 from the comments endpoint makes \<open>get_issue_comments\<close> return the empty
  list; a 404 from the issue endpoint makes \<open>get_issue\<close> raise an \<open>HTTPException\<close> with
  status 404.
\<close>

theorem comments_not_found_is_empty:
  "get_issue_comments owner repo n (HTTPStatusError 404 hs m) = Inr (JArr [])
   \<and> get_issue owner repo n (HTTPStatusError 404 hs m) =
       Inl (HTTPException 404 (JStr (''Issue #'' @ str_int n @ '' not found in '' @ owner
                      @ ''/'' @ repo @ '' or repository is private'')))"
  by (simp add: get_issue_comments_def get_issue_def)

section \<open>The cache\<close>

lemma cache_get_hit:
  "cache c k = Some v \<Longrightarrow> cache_expiry c k = Some x \<Longrightarrow> now < x \<Longrightarrow> cache_get c now k = (v, c)"
  by (simp add: cache_get_def)

lemma cache_get_visible:
  "cache_get c now k = (v, c') \<Longrightarrow> v \<noteq> JNull \<Longrightarrow>
     cache c k = Some v \<and> (case cache_expiry c k of None \<Rightarrow> 0 | Some x \<Rightarrow> x) > now \<and> c' = c"
  by (auto simp: cache_get_def split: option.splits if_splits)

lemma cache_get_expired:
  "cache c k = Some v \<Longrightarrow> cache_expiry c k = Some x \<Longrightarrow> x \<le> now \<Longrightarrow>
     cache_get c now k =
       (JNull, c\<lparr>cache := (cache c)(k := None), cache_expiry := (cache_expiry c)(k := None)\<rparr>)"
  by (simp add: cache_get_def)

lemma cache_get_other_keys:
  "k' \<noteq> k \<Longrightarrow> cache (snd (cache_get c now k)) k' = cache c k'
     \<and> cache_expiry (snd (cache_get c now k)) k' = cache_expiry c k'"
  by (simp add: cache_get_def split: option.splits)

lemma cache_get_ttl: "ttl_seconds (snd (cache_get c now k)) = ttl_seconds c"
  by (simp add: cache_get_def split: option.splits)

lemma cache_set_stored:
  "float_add pf now (ttl_seconds c) = Some x \<Longrightarrow>
     cache_set pf c now k v =
       (None, c\<lparr>cache := (cache c)(k \<mapsto> v), cache_expiry := (cache_expiry c)(k \<mapsto> x)\<rparr>)"
  by (simp add: cache_set_def Let_def)

lemma cache_set_overflow:
  "float_add pf now (ttl_seconds c) = None \<Longrightarrow>
     cache_set pf c now k v =
       (Some (Error Other ''int too large to convert to float''), c\<lparr>cache := (cache c)(k \<mapsto> v)\<rparr>)"
  by (simp add: cache_set_def Let_def)

lemma cache_set_None:
  "cache_set pf c now k v = (None, c') \<Longrightarrow>
     \<exists>x. float_add pf now (ttl_seconds c) = Some x
       \<and> c' = c\<lparr>cache := (cache c)(k \<mapsto> v), cache_expiry := (cache_expiry c)(k \<mapsto> x)\<rparr>"
  by (auto simp: cache_set_def Let_def split: option.splits)

lemma cache_set_other_keys:
  "k' \<noteq> k \<Longrightarrow> cache (snd (cache_set pf c now k v)) k' = cache c k'
     \<and> cache_expiry (snd (cache_set pf c now k v)) k' = cache_expiry c k'"
  by (simp add: cache_set_def Let_def split: option.splits)

lemma get_issue_data_success:
  assumes "get_issue_data pf c env owner repo n = (Inr b, c1, calls)"
  shows "cache c1 (owner, repo, n) = Some b \<and> b \<noteq> JNull
     \<and> (calls \<noteq> [] \<longrightarrow>
          (\<exists>x. float_add pf (t_store env) (ttl_seconds c) = Some x
             \<and> cache_expiry c1 (owner, repo, n) = Some x))"
proof (cases "fst (cache_get c (t_lookup env) (owner, repo, n)) = JNull")
  case False
  obtain v c' where g: "cache_get c (t_lookup env) (owner, repo, n) = (v, c')"
    by (cases "cache_get c (t_lookup env) (owner, repo, n)")
  with False have "v \<noteq> JNull" by simp
  with g cache_get_visible [OF g] assms show ?thesis
    by (simp add: get_issue_data_def)
next
  case True
  obtain c' where g: "cache_get c (t_lookup env) (owner, repo, n) = (JNull, c')"
    using True by (cases "cache_get c (t_lookup env) (owner, repo, n)") simp
  have ttl: "ttl_seconds c' = ttl_seconds c"
    using cache_get_ttl [of c "t_lookup env" "(owner, repo, n)"] g by simp
  from g assms obtain issue comments where
    b: "b = JObj [(''issue'', issue), (''comments'', comments)]"
    and s: "cache_set pf c' (t_store env) (owner, repo, n) b = (None, c1)"
    and calls: "calls = [issue_url owner repo n, comments_url owner repo n]"
    by (auto simp: get_issue_data_def Let_def split: sum.splits option.splits prod.splits)
  from cache_set_None [OF s] ttl obtain x where
    "float_add pf (t_store env) (ttl_seconds c) = Some x"
    and "c1 = c'\<lparr>cache := (cache c')((owner, repo, n) \<mapsto> b),
                  cache_expiry := (cache_expiry c')((owner, repo, n) \<mapsto> x)\<rparr>"
    by auto
  with b show ?thesis by simp
qed

lemma get_issue_data_expired:
  assumes "cache c (owner, repo, n) = Some v"
    and "cache_expiry c (owner, repo, n) = Some x"
    and "x \<le> t_lookup env"
  shows "\<exists>r c' calls. get_issue_data pf c env owner repo n = (r, c', issue_url owner repo n # calls)
     \<and> (\<forall>i cm y. get_issue owner repo n (issue_reply env) = Inr i
            \<and> get_issue_comments owner repo n (comments_reply env) = Inr cm
            \<and> float_add pf (t_store env) (ttl_seconds c) = Some y
          \<longrightarrow> r = Inr (JObj [(''issue'', i), (''comments'', cm)])
              \<and> calls = [comments_url owner repo n])
     \<and> (\<forall>b. r = Inr b
          \<longrightarrow> cache c' (owner, repo, n) = Some b
              \<and> (\<exists>y. float_add pf (t_store env) (ttl_seconds c) = Some y
                     \<and> cache_expiry c' (owner, repo, n) = Some y))"
  using cache_get_expired [OF assms]
  by (cases "get_issue owner repo n (issue_reply env)";
      cases "get_issue_comments owner repo n (comments_reply env)";
      cases "float_add pf (t_store env) (ttl_seconds c)")
    (simp_all add: get_issue_data_def cache_set_def Let_def)

text \<open>
  C1. After \<open>get_issue_data\<close> has returned a bundle for a triple, a second call for
  the same triple whose lookup time is before the expiry stored with the entry returns
  the same bundle, requests no URL and leaves the client's state as it was, whatever
  GitHub would answer. For a bundle just fetched, that expiry is the sum of the store time
  and the TTL as Python computes it.
\<close>

theorem cached_bundle_is_reused:
  assumes "get_issue_data pf c env1 owner repo n = (Inr b, c1, calls1)"
  shows "(\<forall>x. cache_expiry c1 (owner, repo, n) = Some x \<and> t_lookup env2 < x
            \<longrightarrow> get_issue_data pf c1 env2 owner repo n = (Inr b, c1, []))
     \<and> (calls1 \<noteq> []
            \<longrightarrow> (\<exists>x. float_add pf (t_store env1) (ttl_seconds c) = Some x
                   \<and> cache_expiry c1 (owner, repo, n) = Some x))"
proof -
  note s = get_issue_data_success [OF assms]
  have hit: "\<And>x. cache_expiry c1 (owner, repo, n) = Some x \<Longrightarrow> t_lookup env2 < x
      \<Longrightarrow> get_issue_data pf c1 env2 owner repo n = (Inr b, c1, [])"
  proof -
    fix x assume "cache_expiry c1 (owner, repo, n) = Some x" and "t_lookup env2 < x"
    with s have "cache_get c1 (t_lookup env2) (owner, repo, n) = (b, c1)"
      by (simp add: cache_get_hit)
    with s show "get_issue_data pf c1 env2 owner repo n = (Inr b, c1, [])"
      by (simp add: get_issue_data_def)
  qed
  from s hit show ?thesis by blast
qed

theorem cached_bundle_is_reused_witness:
  "get_issue_data strict_platform example_client example_env ''facebook'' ''react'' 1 =
     (Inr example_bundle, example_cached,
      [issue_url ''facebook'' ''react'' 1, comments_url ''facebook'' ''react'' 1])
   \<and> cache_expiry example_cached (''facebook'', ''react'', 1) = Some 1301
   \<and> t_lookup example_env_within < 1301
   \<and> get_issue_data strict_platform example_cached example_env_within ''facebook'' ''react'' 1 =
     (Inr example_bundle, example_cached, [])"
proof -
  have first: "get_issue_data strict_platform example_client example_env ''facebook'' ''react'' 1 =
     (Inr example_bundle, example_cached,
      [issue_url ''facebook'' ''react'' 1, comments_url ''facebook'' ''react'' 1])"
    using example_fetch
    by (simp add: example_app_def example_request_def example_bundle_def)
  have x: "cache_expiry example_cached (''facebook'', ''react'', 1) = Some 1301"
    by (simp add: example_cached_def)
  have window: "t_lookup example_env_within < 1301"
    by (simp add: example_env_within_def)
  from cached_bundle_is_reused [OF first, of example_env_within, THEN conjunct1, rule_format,
      OF conjI [OF x window]]
  have "get_issue_data strict_platform example_cached example_env_within ''facebook'' ''react'' 1 =
     (Inr example_bundle, example_cached, [])" .
  with first x window show ?thesis by (intro conjI)
qed

text \<open>
  C6. A lookup returns an entry only while the time is strictly before its expiry, and
  then changes nothing; \<open>_cache_set\<close> stores the value, and with it the expiry "now plus
  TTL" as Python computes that sum (when the sum raises, only the value is stored). A
  lookup of an expired entry returns \<open>None\<close> and removes that entry from both dicts; no
  lookup or store touches the entry of another key. A fetch for an expired key requests
  the issue URL first, and when it succeeds the entry holds the new bundle and the expiry
  "store time plus TTL" computed in the same way.
\<close>

theorem cache_entry_lifetime:
  "(\<forall>v c'. cache_get c now k = (v, c') \<and> v \<noteq> JNull
        \<longrightarrow> cache c k = Some v
            \<and> now < (case cache_expiry c k of None \<Rightarrow> 0 | Some x \<Rightarrow> x) \<and> c' = c)
   \<and> cache (snd (cache_set pf c now k w)) k = Some w
   \<and> (\<forall>x. float_add pf now (ttl_seconds c) = Some x
        \<longrightarrow> fst (cache_set pf c now k w) = None
            \<and> cache_expiry (snd (cache_set pf c now k w)) k = Some x)
   \<and> (float_add pf now (ttl_seconds c) = None
        \<longrightarrow> fst (cache_set pf c now k w) = Some (Error Other ''int too large to convert to float'')
            \<and> cache_expiry (snd (cache_set pf c now k w)) = cache_expiry c)
   \<and> (\<forall>v x. cache c k = Some v \<and> cache_expiry c k = Some x \<and> x \<le> now
        \<longrightarrow> fst (cache_get c now k) = JNull
            \<and> cache (snd (cache_get c now k)) k = None
            \<and> cache_expiry (snd (cache_get c now k)) k = None)
   \<and> (\<forall>k'. k' \<noteq> k
        \<longrightarrow> cache (snd (cache_get c now k)) k' = cache c k'
            \<and> cache_expiry (snd (cache_get c now k)) k' = cache_expiry c k'
            \<and> cache (snd (cache_set pf c now k w)) k' = cache c k'
            \<and> cache_expiry (snd (cache_set pf c now k w)) k' = cache_expiry c k')
   \<and> (\<forall>v x. cache c (owner, repo, n) = Some v \<and> cache_expiry c (owner, repo, n) = Some x
          \<and> x \<le> t_lookup env
        \<longrightarrow> (\<exists>r c' calls.
               get_issue_data pf c env owner repo n = (r, c', issue_url owner repo n # calls)
             \<and> (\<forall>i cm y. get_issue owner repo n (issue_reply env) = Inr i
                    \<and> get_issue_comments owner repo n (comments_reply env) = Inr cm
                    \<and> float_add pf (t_store env) (ttl_seconds c) = Some y
                  \<longrightarrow> r = Inr (JObj [(''issue'', i), (''comments'', cm)])
                      \<and> calls = [comments_url owner repo n])
             \<and> (\<forall>b. r = Inr b
                  \<longrightarrow> cache c' (owner, repo, n) = Some b
                      \<and> (\<exists>y. float_add pf (t_store env) (ttl_seconds c) = Some y
                             \<and> cache_expiry c' (owner, repo, n) = Some y))))"
proof -
  have a: "\<forall>v c'. cache_get c now k = (v, c') \<and> v \<noteq> JNull
        \<longrightarrow> cache c k = Some v
            \<and> now < (case cache_expiry c k of None \<Rightarrow> 0 | Some x \<Rightarrow> x) \<and> c' = c"
    using cache_get_visible [of c now k] by blast
  have b: "cache (snd (cache_set pf c now k w)) k = Some w"
    by (simp add: cache_set_def Let_def split: option.splits)
  have s: "\<forall>x. float_add pf now (ttl_seconds c) = Some x
        \<longrightarrow> fst (cache_set pf c now k w) = None
            \<and> cache_expiry (snd (cache_set pf c now k w)) k = Some x"
    by (simp add: cache_set_stored)
  have v: "float_add pf now (ttl_seconds c) = None
        \<longrightarrow> fst (cache_set pf c now k w) = Some (Error Other ''int too large to convert to float'')
            \<and> cache_expiry (snd (cache_set pf c now k w)) = cache_expiry c"
    by (simp add: cache_set_overflow)
  have e: "\<forall>v x. cache c k = Some v \<and> cache_expiry c k = Some x \<and> x \<le> now
        \<longrightarrow> fst (cache_get c now k) = JNull
            \<and> cache (snd (cache_get c now k)) k = None
            \<and> cache_expiry (snd (cache_get c now k)) k = None"
    by (simp add: cache_get_def)
  have o: "\<forall>k'. k' \<noteq> k
        \<longrightarrow> cache (snd (cache_get c now k)) k' = cache c k'
            \<and> cache_expiry (snd (cache_get c now k)) k' = cache_expiry c k'
            \<and> cache (snd (cache_set pf c now k w)) k' = cache c k'
            \<and> cache_expiry (snd (cache_set pf c now k w)) k' = cache_expiry c k'"
    using cache_get_other_keys [of _ k c now] cache_set_other_keys [of _ k pf c now w] by blast
  have f: "\<forall>v x. cache c (owner, repo, n) = Some v \<and> cache_expiry c (owner, repo, n) = Some x
          \<and> x \<le> t_lookup env
        \<longrightarrow> (\<exists>r c' calls.
               get_issue_data pf c env owner repo n = (r, c', issue_url owner repo n # calls)
             \<and> (\<forall>i cm y. get_issue owner repo n (issue_reply env) = Inr i
                    \<and> get_issue_comments owner repo n (comments_reply env) = Inr cm
                    \<and> float_add pf (t_store env) (ttl_seconds c) = Some y
                  \<longrightarrow> r = Inr (JObj [(''issue'', i), (''comments'', cm)])
                      \<and> calls = [comments_url owner repo n])
             \<and> (\<forall>b. r = Inr b
                  \<longrightarrow> cache c' (owner, repo, n) = Some b
                      \<and> (\<exists>y. float_add pf (t_store env) (ttl_seconds c) = Some y
                             \<and> cache_expiry c' (owner, repo, n) = Some y)))"
    using get_issue_data_expired [of c owner repo n _ _ env pf] by blast
  from a b s v e o f show ?thesis by (intro conjI)
qed

theorem cache_entry_lifetime_witness:
  "cache example_cached (''facebook'', ''react'', 1) = Some example_bundle
   \<and> cache_expiry example_cached (''facebook'', ''react'', 1) = Some 1301
   \<and> 1301 \<le> t_lookup example_env_after
   \<and> fst (cache_get example_cached 1301 (''facebook'', ''react'', 1)) = JNull
   \<and> cache (snd (cache_get example_cached 1301 (''facebook'', ''react'', 1))) (''facebook'', ''react'', 1) = None
   \<and> float_add strict_platform (t_store example_env_after) (ttl_seconds example_cached) = Some 1602
   \<and> (\<exists>c'. get_issue_data strict_platform example_cached example_env_after ''facebook'' ''react'' 1 =
          (Inr (JObj [(''issue'', example_issue_edited), (''comments'', example_comments)]),
           c', [issue_url ''facebook'' ''react'' 1, comments_url ''facebook'' ''react'' 1])
        \<and> cache c' (''facebook'', ''react'', 1) =
            Some (JObj [(''issue'', example_issue_edited), (''comments'', example_comments)])
        \<and> cache_expiry c' (''facebook'', ''react'', 1) = Some 1602)"
proof -
  let ?k = "(''facebook'', ''react'', 1 :: int)"
  let ?new = "JObj [(''issue'', example_issue_edited), (''comments'', example_comments)]"
  have v: "cache example_cached ?k = Some example_bundle"
    by (simp add: example_cached_def)
  have x: "cache_expiry example_cached ?k = Some 1301"
    by (simp add: example_cached_def)
  have t: "1301 \<le> t_lookup example_env_after"
    by (simp add: example_env_after_def)
  have ttl: "float_add strict_platform (t_store example_env_after) (ttl_seconds example_cached) = Some 1602"
    by (simp add: example_env_after_def example_cached_def strict_platform_def)
  have i: "get_issue ''facebook'' ''react'' 1 (issue_reply example_env_after) = Inr example_issue_edited"
    by (simp add: get_issue_def example_env_after_def)
  have cm: "get_issue_comments ''facebook'' ''react'' 1 (comments_reply example_env_after) =
      Inr example_comments"
    by (simp add: get_issue_comments_def example_env_after_def)
  note inst = cache_entry_lifetime [where c = example_cached and now = 1301 and k = ?k
      and w = example_bundle and owner = "''facebook''" and repo = "''react''" and n = 1
      and env = example_env_after and pf = strict_platform]
  have le: "(1301::real) \<le> 1301" by simp
  note e = inst [THEN conjunct2, THEN conjunct2, THEN conjunct2, THEN conjunct2, THEN conjunct1,
      rule_format, OF conjI [OF v conjI [OF x le]]]
  note f = inst [THEN conjunct2, THEN conjunct2, THEN conjunct2, THEN conjunct2, THEN conjunct2,
      THEN conjunct2, rule_format, OF conjI [OF v conjI [OF x t]]]
  from e have purge:
    "fst (cache_get example_cached 1301 ?k) = JNull
     \<and> cache (snd (cache_get example_cached 1301 ?k)) ?k = None"
    by (elim conjE) (intro conjI)
  from f obtain r c' calls where
    g: "get_issue_data strict_platform example_cached example_env_after ''facebook'' ''react'' 1 =
          (r, c', issue_url ''facebook'' ''react'' 1 # calls)"
    and ok: "\<forall>i cm y. get_issue ''facebook'' ''react'' 1 (issue_reply example_env_after) = Inr i
                    \<and> get_issue_comments ''facebook'' ''react'' 1 (comments_reply example_env_after) = Inr cm
                    \<and> float_add strict_platform (t_store example_env_after) (ttl_seconds example_cached) = Some y
                  \<longrightarrow> r = Inr (JObj [(''issue'', i), (''comments'', cm)])
                      \<and> calls = [comments_url ''facebook'' ''react'' 1]"
    and st: "\<forall>b. r = Inr b
                  \<longrightarrow> cache c' ?k = Some b
                      \<and> (\<exists>y. float_add strict_platform (t_store example_env_after)
                                 (ttl_seconds example_cached) = Some y
                             \<and> cache_expiry c' ?k = Some y)"
    by (elim exE conjE)
  from ok [rule_format, OF conjI [OF i conjI [OF cm ttl]]]
  have r: "r = Inr ?new" and c: "calls = [comments_url ''facebook'' ''react'' 1]"
    by simp_all
  from st [rule_format, OF r] ttl have n: "cache c' ?k = Some ?new \<and> cache_expiry c' ?k = Some 1602"
    by auto
  from g r c have g': "get_issue_data strict_platform example_cached example_env_after ''facebook'' ''react'' 1 =
          (Inr ?new, c', [issue_url ''facebook'' ''react'' 1, comments_url ''facebook'' ''react'' 1])"
    by simp
  from g' n have ex: "\<exists>c'. get_issue_data strict_platform example_cached example_env_after ''facebook'' ''react'' 1 =
          (Inr ?new, c', [issue_url ''facebook'' ''react'' 1, comments_url ''facebook'' ''react'' 1])
        \<and> cache c' ?k = Some ?new
        \<and> cache_expiry c' ?k = Some 1602"
    by (intro exI [of _ c'] conjI) (elim conjE, assumption)+
  from v x t purge ttl ex show ?thesis
    by (intro conjI) (elim conjE, assumption)+
qed

section \<open>The request boundary\<close>

lemma py_in_append_right: "py_in sub s \<Longrightarrow> py_in sub (s @ t)"
proof (induction s)
  case Nil
  then show ?case by (cases t) simp_all
next
  case (Cons c cs)
  show ?case
  proof (cases "take (length sub) (c # cs) = sub")
    case True
    then have "length (take (length sub) (c # cs)) = length sub"
      by (rule arg_cong)
    then have "length sub \<le> length (c # cs)"
      by (simp add: min_def split: if_splits)
    then have "take (length sub) ((c # cs) @ t) = take (length sub) (c # cs)"
      by (simp only: take_append) simp
    with True have "take (length sub) ((c # cs) @ t) = sub"
      by (simp only:)
    then show ?thesis by simp
  next
    case False
    with Cons show ?thesis by simp
  qed
qed

lemma py_in_here: "py_in sub (sub @ rest)"
proof (cases "sub @ rest")
  case Nil
  then show ?thesis by simp
next
  case (Cons a list)
  have "take (length sub) (sub @ rest) = sub" by simp
  with Cons have "take (length sub) (a # list) = sub" by simp
  with Cons show ?thesis by simp
qed

lemma py_in_append_left: "py_in sub s \<Longrightarrow> py_in sub (pre @ s)"
  by (induction pre) simp_all

lemma py_rstrip_decomp: "\<exists>k. s = py_rstrip ch s @ replicate k ch"
proof -
  have "\<And>xs. \<exists>k. xs = replicate k ch @ dropWhile (\<lambda>c. c = ch) xs"
  proof -
    fix xs :: string
    show "\<exists>k. xs = replicate k ch @ dropWhile (\<lambda>c. c = ch) xs"
    proof (induction xs)
      case Nil
      then show ?case by simp
    next
      case (Cons x xs)
      then obtain k where k: "xs = replicate k ch @ dropWhile (\<lambda>c. c = ch) xs" by blast
      show ?case
      proof (cases "x = ch")
        case True
        with k have "x # xs = replicate (Suc k) ch @ dropWhile (\<lambda>c. c = ch) (x # xs)"
          by simp
        then show ?thesis by blast
      next
        case False
        then have "x # xs = replicate 0 ch @ dropWhile (\<lambda>c. c = ch) (x # xs)"
          by simp
        then show ?thesis by blast
      qed
    qed
  qed
  then obtain k where "rev s = replicate k ch @ dropWhile (\<lambda>c. c = ch) (rev s)"
    by blast
  then have "rev (rev s) = rev (replicate k ch @ dropWhile (\<lambda>c. c = ch) (rev s))"
    by simp
  then have "s = py_rstrip ch s @ replicate k ch"
    by (simp add: py_rstrip_def)
  then show ?thesis by blast
qed

lemma py_rstrip_keeps: "s \<noteq> [] \<Longrightarrow> last s \<noteq> ch \<Longrightarrow> py_rstrip ch (s @ replicate k ch) = s"
proof -
  assume s: "s \<noteq> []" and l: "last s \<noteq> ch"
  have "dropWhile (\<lambda>c. c = ch) (replicate k ch @ rev s) = dropWhile (\<lambda>c. c = ch) (rev s)"
    by (induction k) simp_all
  moreover from s l have "dropWhile (\<lambda>c. c = ch) (rev s) = rev s"
    by (cases "rev s") (auto simp: last_rev)
  ultimately show ?thesis
    by (simp add: py_rstrip_def)
qed

lemma split_from_no_match:
  "c \<in> set sep \<Longrightarrow> c \<notin> set s \<Longrightarrow> split_from sep acc s = [rev acc @ s]"
proof (induction s arbitrary: acc)
  case Nil
  then show ?case by simp
next
  case (Cons x xs)
  have "take (length sep) (x # xs) \<noteq> sep"
  proof
    assume "take (length sep) (x # xs) = sep"
    then have "set sep \<subseteq> set (x # xs)"
      by (metis set_take_subset)
    with Cons.prems show False by auto
  qed
  with Cons show ?case by simp
qed

lemma split_from_nonempty: "split_from sep acc s \<noteq> []"
  by (induction sep acc s rule: split_from.induct) auto

lemma no_border:
  assumes sep: "sep = body @ [t]" and t: "t \<notin> set body" and k: "0 < k" "k < length sep"
  shows "take (length sep - k) (sep @ rest) \<noteq> drop k sep"
proof
  assume eq: "take (length sep - k) (sep @ rest) = drop k sep"
  from sep k have le: "length sep - k \<le> length body" and kb: "k \<le> length body"
    by simp_all
  have "sep @ rest = body @ ([t] @ rest)"
    by (simp add: sep)
  with le have "take (length sep - k) (sep @ rest) = take (length sep - k) body"
    by simp
  then have "set (take (length sep - k) (sep @ rest)) \<subseteq> set body"
    by (metis set_take_subset)
  moreover from kb have "drop k sep = drop k body @ [t]"
    by (simp add: sep)
  then have "t \<in> set (drop k sep)"
    by simp
  ultimately show False using eq t by auto
qed

lemma split_from_step_match:
  "sep \<noteq> [] \<Longrightarrow> s \<noteq> [] \<Longrightarrow> take (length sep) s = sep \<Longrightarrow>
     split_from sep acc s = rev acc # split_from sep [] (drop (length sep) s)"
  by (cases s) simp_all

lemma split_from_step_skip:
  "take (length sep) (c # cs) \<noteq> sep \<Longrightarrow> split_from sep acc (c # cs) = split_from sep (c # acc) cs"
  by simp

lemma split_from_last:
  assumes sep: "sep = body @ [t]" and t: "t \<notin> set body" and seg: "t \<notin> set seg"
  shows "last (split_from sep acc (s @ sep @ seg)) = seg"
proof (induction "length s" arbitrary: s acc rule: less_induct)
  case less
  have ne: "sep \<noteq> []" using sep by simp
  then have ne': "s @ sep @ seg \<noteq> []" by simp
  have tsep: "t \<in> set sep" using sep by simp
  show ?case
  proof (cases "take (length sep) (s @ sep @ seg) = sep")
    case True
    have unfold: "split_from sep acc (s @ sep @ seg) =
        rev acc # split_from sep [] (drop (length sep) (s @ sep @ seg))"
      using ne ne' True by (rule split_from_step_match)
    have rest: "last (split_from sep [] (drop (length sep) (s @ sep @ seg))) = seg"
    proof (cases "s = []")
      case True
      then have "drop (length sep) (s @ sep @ seg) = seg" by simp
      moreover have "split_from sep [] seg = [rev [] @ seg]"
        using tsep seg by (rule split_from_no_match)
      ultimately show ?thesis by simp
    next
      case False
      show ?thesis
      proof (cases "length s < length sep")
        case short: True
        have "take (length sep) (s @ sep @ seg) = s @ take (length sep - length s) (sep @ seg)"
          using short by simp
        with True have "s @ take (length sep - length s) (sep @ seg) = sep"
          by (simp only:)
        then have "drop (length s) (s @ take (length sep - length s) (sep @ seg)) = drop (length s) sep"
          by (rule arg_cong)
        then have "take (length sep - length s) (sep @ seg) = drop (length s) sep"
          by (simp only: drop_append drop_all [OF order_refl] diff_self_eq_0 drop_0 append_Nil)
        moreover from False short have "0 < length s" "length s < length sep"
          by simp_all
        ultimately show ?thesis
          using no_border [OF sep t, of "length s" seg] by blast
      next
        case long: False
        then have "drop (length sep) (s @ sep @ seg) = drop (length sep) s @ sep @ seg"
          by simp
        moreover have "length (drop (length sep) s) < length s"
          using False ne by simp
        ultimately show ?thesis
          using less [of "drop (length sep) s" "[]"] by simp
      qed
    qed
    from unfold rest split_from_nonempty [of sep "[]" "drop (length sep) (s @ sep @ seg)"]
    show ?thesis by simp
  next
    case False
    then have "s \<noteq> []" by auto
    then obtain c s' where s: "s = c # s'"
      by (cases s) simp_all
    with False have "take (length sep) (c # (s' @ sep @ seg)) \<noteq> sep"
      by simp
    then have "split_from sep acc (c # (s' @ sep @ seg)) = split_from sep (c # acc) (s' @ sep @ seg)"
      by (rule split_from_step_skip)
    with less [of s' "c # acc"] s show ?thesis by simp
  qed
qed

lemma split_marker_last:
  assumes "CHR ''/'' \<notin> set seg"
  shows "last (py_split ''github.com/'' (pre @ ''github.com/'' @ seg)) = seg"
proof -
  have "''github.com/'' = ''github.com'' @ [CHR ''/'']" by simp
  moreover have "CHR ''/'' \<notin> set ''github.com''" by simp
  ultimately have "last (split_from ''github.com/'' [] (pre @ ''github.com/'' @ seg)) = seg"
    using assms by (rule split_from_last)
  then show ?thesis by (simp only: py_split_def)
qed

lemma split_no_slash: "CHR ''/'' \<notin> set s \<Longrightarrow> py_split ''/'' s = [s]"
  using split_from_no_match [of "CHR ''/''" "''/''" s "[]"] by (simp add: py_split_def)

lemma extract_owner_repo_cases:
  "extract_owner_repo url =
     (let u = py_rstrip CHR ''/'' url;
          parts = py_split ''/'' (last (py_split ''github.com/'' u))
      in if \<not> py_in ''github.com'' u then Inl (invalid_url ''Invalid GitHub URL'' u)
         else if length parts < 2 then Inl (invalid_url ''Invalid GitHub repository URL format'' u)
         else Inr (parts ! 0, parts ! 1))"
  by (simp add: extract_owner_repo_def owner_and_repo_def Let_def ErrorResponse_dict_def
      invalid_url_def)

lemma no_marker_rejected:
  assumes "\<not> py_in ''github.com'' url"
  shows "extract_owner_repo url = Inl (invalid_url ''Invalid GitHub URL'' (py_rstrip CHR ''/'' url))"
proof -
  obtain k where "url = py_rstrip CHR ''/'' url @ replicate k CHR ''/''"
    using py_rstrip_decomp by blast
  with assms have "\<not> py_in ''github.com'' (py_rstrip CHR ''/'' url)"
    by (metis py_in_append_right)
  then show ?thesis
    by (simp add: extract_owner_repo_cases Let_def)
qed

lemma one_segment_rejected:
  assumes "seg \<noteq> []" and "CHR ''/'' \<notin> set seg"
  shows "extract_owner_repo (pre @ ''github.com/'' @ seg @ replicate k CHR ''/'') =
     Inl (invalid_url ''Invalid GitHub repository URL format'' (pre @ ''github.com/'' @ seg))"
proof -
  let ?u = "pre @ ''github.com/'' @ seg"
  from assms have "last ?u \<noteq> CHR ''/''"
    by (metis append_is_Nil_conv last_appendR last_in_set)
  then have u: "py_rstrip CHR ''/'' (?u @ replicate k CHR ''/'') = ?u"
    by (intro py_rstrip_keeps) simp_all
  have m: "py_in ''github.com'' ?u"
    using py_in_append_left [OF py_in_here [of "''github.com''" "''/'' @ seg"], of pre] by simp
  have "last (py_split ''github.com/'' ?u) = seg"
    using assms(2) by (rule split_marker_last)
  then have "py_split ''/'' (last (py_split ''github.com/'' ?u)) = [seg]"
    using split_no_slash [OF assms(2)] by (simp only:)
  with u m show ?thesis
    using extract_owner_repo_cases [of "?u @ replicate k CHR ''/''"] by (simp add: Let_def)
qed

lemma post_analyze_invalid_url:
  assumes "issue_number req > 0"
    and "extract_owner_repo (repo_url req) = Inl (invalid_url reason u)"
  shows "post_analyze pf a env run req =
     (JSONResponse 400
        (JObj [(''detail'',
                JObj [(''detail'', JStr (''Invalid GitHub repository URL: '' @ reason)),
                      (''error_type'', JStr ''invalid_url''),
                      (''metadata'', JObj [(''input'', JStr u)])]),
               (''status_code'', JInt 400)]),
      a, [])"
  using assms
  by (simp add: post_analyze_def analyze_issue_route_def invalid_url_def http_exception_handler_def)

lemma google_url:
  "extract_owner_repo ''https://google.com/notgithub'' =
     Inl (invalid_url ''Invalid GitHub URL'' ''https://google.com/notgithub'')"
  by (simp add: extract_owner_repo_cases py_rstrip_def Let_def)

text \<open>
  C5, as the code has it. A URL without \<open>github.com\<close> is rejected with status 400 and
  the \<open>invalid_url\<close> envelope, and so is every URL that ends, trailing slashes apart, in
  \<open>github.com/\<close> and a single non-empty segment; \<open>https://google.com/notgithub\<close> is an
  instance. The endpoint sends that envelope with status 400 and neither touches the cache
  nor calls GitHub. An issue number that is not positive fails the validation of the
  request body, which is answered with status 422.
\<close>

theorem invalid_input_rejected:
  "(\<not> py_in ''github.com'' url
      \<longrightarrow> extract_owner_repo url = Inl (invalid_url ''Invalid GitHub URL'' (py_rstrip CHR ''/'' url)))
   \<and> (seg \<noteq> [] \<and> CHR ''/'' \<notin> set seg
      \<longrightarrow> extract_owner_repo (pre @ ''github.com/'' @ seg @ replicate k CHR ''/'') =
            Inl (invalid_url ''Invalid GitHub repository URL format'' (pre @ ''github.com/'' @ seg)))
   \<and> extract_owner_repo ''https://google.com/notgithub'' =
        Inl (invalid_url ''Invalid GitHub URL'' ''https://google.com/notgithub'')
   \<and> (\<forall>reason u. issue_number req > 0
          \<and> extract_owner_repo (repo_url req) = Inl (invalid_url reason u)
      \<longrightarrow> post_analyze pf a env run req =
            (JSONResponse 400
               (JObj [(''detail'',
                       JObj [(''detail'', JStr (''Invalid GitHub repository URL: '' @ reason)),
                             (''error_type'', JStr ''invalid_url''),
                             (''metadata'', JObj [(''input'', JStr u)])]),
                      (''status_code'', JInt 400)]),
             a, []))
   \<and> (issue_number req \<le> 0
      \<longrightarrow> post_analyze pf a env run req = (UnprocessableEntity, a, [])
          \<and> status_of (fst (post_analyze pf a env run req)) = 422)"
proof (intro conjI allI impI)
  assume "\<not> py_in ''github.com'' url"
  then show "extract_owner_repo url = Inl (invalid_url ''Invalid GitHub URL'' (py_rstrip CHR ''/'' url))"
    by (rule no_marker_rejected)
next
  assume "seg \<noteq> [] \<and> CHR ''/'' \<notin> set seg"
  then show "extract_owner_repo (pre @ ''github.com/'' @ seg @ replicate k CHR ''/'') =
            Inl (invalid_url ''Invalid GitHub repository URL format'' (pre @ ''github.com/'' @ seg))"
    using one_segment_rejected [where pre = pre and seg = seg and k = k] by blast
next
  show "extract_owner_repo ''https://google.com/notgithub'' =
        Inl (invalid_url ''Invalid GitHub URL'' ''https://google.com/notgithub'')"
    by (rule google_url)
next
  fix reason u
  assume "issue_number req > 0 \<and> extract_owner_repo (repo_url req) = Inl (invalid_url reason u)"
  then show "post_analyze pf a env run req =
            (JSONResponse 400
               (JObj [(''detail'',
                       JObj [(''detail'', JStr (''Invalid GitHub repository URL: '' @ reason)),
                             (''error_type'', JStr ''invalid_url''),
                             (''metadata'', JObj [(''input'', JStr u)])]),
                      (''status_code'', JInt 400)]),
             a, [])"
    using post_analyze_invalid_url [of req reason u pf a env run] by blast
next
  assume "issue_number req \<le> 0"
  then show "post_analyze pf a env run req = (UnprocessableEntity, a, [])"
    by (simp add: post_analyze_def)
next
  assume "issue_number req \<le> 0"
  then show "status_of (fst (post_analyze pf a env run req)) = 422"
    by (simp add: post_analyze_def)
qed

theorem invalid_input_rejected_witness:
  "post_analyze strict_platform example_app example_env (Loaded example_reply)
       \<lparr>repo_url = ''https://google.com/notgithub'', issue_number = 1\<rparr> =
     (JSONResponse 400
        (JObj [(''detail'',
                JObj [(''detail'', JStr (''Invalid GitHub repository URL: '' @ ''Invalid GitHub URL'')),
                      (''error_type'', JStr ''invalid_url''),
                      (''metadata'', JObj [(''input'', JStr ''https://google.com/notgithub'')])]),
               (''status_code'', JInt 400)]),
      example_app, [])
   \<and> extract_owner_repo (''https://'' @ ''github.com/'' @ ''facebook'' @ replicate 1 CHR ''/'') =
       Inl (invalid_url ''Invalid GitHub repository URL format'' (''https://'' @ ''github.com/'' @ ''facebook''))
   \<and> status_of (fst (post_analyze strict_platform example_app example_env (Loaded example_reply)
         \<lparr>repo_url = ''https://github.com/facebook/react'', issue_number = - 3\<rparr>)) = 422"
proof -
  let ?req = "\<lparr>repo_url = ''https://google.com/notgithub'', issue_number = 1\<rparr>"
  let ?neg = "\<lparr>repo_url = ''https://github.com/facebook/react'', issue_number = - 3\<rparr>"
  have nomarker: "\<not> py_in ''github.com'' ''https://google.com/notgithub''"
    by simp
  have strip: "py_rstrip CHR ''/'' ''https://google.com/notgithub'' = ''https://google.com/notgithub''"
    by (simp add: py_rstrip_def)
  note inst = invalid_input_rejected [where url = "''https://google.com/notgithub''"
      and pre = "''https://''" and seg = "''facebook''" and k = 1 and req = ?req
      and pf = strict_platform and a = example_app and env = example_env
      and run = "Loaded example_reply"]
  from inst nomarker strip
  have e: "extract_owner_repo (repo_url ?req) =
      Inl (invalid_url ''Invalid GitHub URL'' ''https://google.com/notgithub'')"
    by simp
  have pos: "issue_number ?req > 0" by simp
  from inst [THEN conjunct2, THEN conjunct2, THEN conjunct2, THEN conjunct1, rule_format,
      OF conjI [OF pos e]]
  have a: "post_analyze strict_platform example_app example_env (Loaded example_reply) ?req =
     (JSONResponse 400
        (JObj [(''detail'',
                JObj [(''detail'', JStr (''Invalid GitHub repository URL: '' @ ''Invalid GitHub URL'')),
                      (''error_type'', JStr ''invalid_url''),
                      (''metadata'', JObj [(''input'', JStr ''https://google.com/notgithub'')])]),
               (''status_code'', JInt 400)]),
      example_app, [])" .
  have seg: "''facebook'' \<noteq> [] \<and> CHR ''/'' \<notin> set ''facebook''"
    by simp
  from inst [THEN conjunct2, THEN conjunct1, rule_format, OF seg]
  have b: "extract_owner_repo (''https://'' @ ''github.com/'' @ ''facebook'' @ replicate 1 CHR ''/'') =
       Inl (invalid_url ''Invalid GitHub repository URL format'' (''https://'' @ ''github.com/'' @ ''facebook''))" .
  have neg: "issue_number ?neg \<le> 0" by simp
  from invalid_input_rejected [where url = "''https://google.com/notgithub''"
      and pre = "''https://''" and seg = "''facebook''" and k = 1 and req = ?neg
      and pf = strict_platform and a = example_app and env = example_env
      and run = "Loaded example_reply",
      THEN conjunct2, THEN conjunct2, THEN conjunct2, THEN conjunct2, rule_format, OF neg]
  have c: "status_of (fst (post_analyze strict_platform example_app example_env (Loaded example_reply) ?neg)) = 422"
    by (rule conjunct2)
  from a b c show ?thesis by (intro conjI)
qed

text \<open>
  C5 as stated does not hold: issue number 0 is answered with 422, not 400; and
  \<open>https://github.com\<close>, with no segment after the host, is accepted as owner \<open>https:\<close> and
  an empty repository name.
\<close>

theorem invalid_input_counterexample:
  "status_of (fst (post_analyze strict_platform example_app example_env (Loaded example_reply)
       \<lparr>repo_url = ''https://github.com/facebook/react'', issue_number = 0\<rparr>)) = 422
   \<and> status_of (fst (post_analyze strict_platform example_app example_env (Loaded example_reply)
       \<lparr>repo_url = ''https://github.com/facebook/react'', issue_number = 0\<rparr>)) \<noteq> 400
   \<and> extract_owner_repo ''https://github.com'' = Inr (''https:'', '''')"
  by (simp add: post_analyze_def extract_owner_repo_cases py_rstrip_def py_split_def Let_def)

section \<open>Health\<close>

lemma provider_client_fails:
  "(\<exists>e. provider_client st p var missing = Inl e) \<longleftrightarrow>
     import_failure st \<noteq> None \<or> environ st var = None \<or> environ st var = Some []
     \<or> client_failure st \<noteq> None"
  by (auto simp: provider_client_def split: option.splits)

lemma LLMAnalyzer_init_fails:
  "(\<exists>e. LLMAnalyzer_init st = Inl e) \<longleftrightarrow>
     (let p = py_lower (getenv st ''LLM_PROVIDER'' ''openai'')
      in (p \<noteq> ''openai'' \<and> p \<noteq> ''gemini'')
       \<or> (p = ''openai'' \<and> (import_failure st \<noteq> None \<or> environ st ''OPENAI_API_KEY'' = None
             \<or> environ st ''OPENAI_API_KEY'' = Some [] \<or> client_failure st \<noteq> None))
       \<or> (p = ''gemini'' \<and> (import_failure st \<noteq> None \<or> environ st ''GEMINI_API_KEY'' = None
             \<or> environ st ''GEMINI_API_KEY'' = Some [] \<or> client_failure st \<noteq> None)))"
  by (simp add: LLMAnalyzer_init_def Let_def provider_client_fails del: not_None_eq)

lemma singleton_None:
  "llm_analyzer_singleton st = None \<longleftrightarrow> (\<exists>e. LLMAnalyzer_init st = Inl e)"
  by (cases "LLMAnalyzer_init st") (simp_all add: llm_analyzer_singleton_def)

lemma example_no_credential_init:
  "LLMAnalyzer_init example_no_credential = Inl (Error ValueError ''OPENAI_API_KEY environment variable is not set'')"
  by (simp add: example_no_credential_def LLMAnalyzer_init_def getenv_def py_lower_def
      lower_char_def is_upper_def provider_client_def)

lemma example_unsupported_init:
  "LLMAnalyzer_init example_unsupported = Inl (Error ValueError ''Unsupported LLM_PROVIDER. Use 'openai' or 'gemini'.'')"
  by (simp add: example_unsupported_def LLMAnalyzer_init_def getenv_def py_lower_def
      lower_char_def is_upper_def provider_client_def)

lemma example_configured_init:
  "LLMAnalyzer_init example_configured = Inr \<lparr>provider = ''gemini''\<rparr>"
  by (simp add: example_configured_def LLMAnalyzer_init_def getenv_def py_lower_def
      lower_char_def is_upper_def provider_client_def)

text \<open>
  C8, as the code has it. \<open>GET /health\<close> answers 200 with status \<open>healthy\<close> whatever the
  analyzer is, and \<open>llm_service\<close> is \<open>unavailable\<close> exactly when the analyzer singleton is
  \<open>None\<close>, that is, when \<open>LLMAnalyzer()\<close> raised at start: the provider is neither \<open>openai\<close>
  nor \<open>gemini\<close>, or the credential of the selected provider is unset or empty, or its SDK
  could not be imported or its client built.
\<close>

theorem health_check_reports_analyzer:
  "fst (health_check pf a start_time now) = 200
   \<and> status (snd (health_check pf a start_time now)) = ''healthy''
   \<and> dependencies (snd (health_check pf a start_time now)) =
        Some [(''github_api'', ''operational''),
              (''llm_service'', if llm_analyzer a = None then ''unavailable'' else ''operational'')]
   \<and> (llm_analyzer (start_app st ttl) = None \<longleftrightarrow> (\<exists>e. LLMAnalyzer_init st = Inl e))
   \<and> ((\<exists>e. LLMAnalyzer_init st = Inl e) \<longleftrightarrow>
        (let p = py_lower (getenv st ''LLM_PROVIDER'' ''openai'')
         in (p \<noteq> ''openai'' \<and> p \<noteq> ''gemini'')
          \<or> (p = ''openai'' \<and> (import_failure st \<noteq> None \<or> environ st ''OPENAI_API_KEY'' = None
                \<or> environ st ''OPENAI_API_KEY'' = Some [] \<or> client_failure st \<noteq> None))
          \<or> (p = ''gemini'' \<and> (import_failure st \<noteq> None \<or> environ st ''GEMINI_API_KEY'' = None
                \<or> environ st ''GEMINI_API_KEY'' = Some [] \<or> client_failure st \<noteq> None))))"
proof (intro conjI)
  show "fst (health_check pf a start_time now) = 200"
    by (simp add: health_check_def)
  show "status (snd (health_check pf a start_time now)) = ''healthy''"
    by (simp add: health_check_def)
  show "dependencies (snd (health_check pf a start_time now)) =
        Some [(''github_api'', ''operational''),
              (''llm_service'', if llm_analyzer a = None then ''unavailable'' else ''operational'')]"
    by (simp add: health_check_def)
  show "llm_analyzer (start_app st ttl) = None \<longleftrightarrow> (\<exists>e. LLMAnalyzer_init st = Inl e)"
    by (simp add: start_app_def singleton_None)
  show "(\<exists>e. LLMAnalyzer_init st = Inl e) \<longleftrightarrow>
        (let p = py_lower (getenv st ''LLM_PROVIDER'' ''openai'')
         in (p \<noteq> ''openai'' \<and> p \<noteq> ''gemini'')
          \<or> (p = ''openai'' \<and> (import_failure st \<noteq> None \<or> environ st ''OPENAI_API_KEY'' = None
                \<or> environ st ''OPENAI_API_KEY'' = Some [] \<or> client_failure st \<noteq> None))
          \<or> (p = ''gemini'' \<and> (import_failure st \<noteq> None \<or> environ st ''GEMINI_API_KEY'' = None
                \<or> environ st ''GEMINI_API_KEY'' = Some [] \<or> client_failure st \<noteq> None)))"
    by (rule LLMAnalyzer_init_fails)
qed

theorem health_check_reports_analyzer_witness:
  "environ example_no_credential ''OPENAI_API_KEY'' = None
   \<and> llm_analyzer (start_app example_no_credential 300) = None
   \<and> health_check strict_platform (start_app example_no_credential 300) 1000 1060 =
       (200, \<lparr>status = ''healthy'', version = ''1.0.0'', uptime = Some 60,
              dependencies = Some [(''github_api'', ''operational''), (''llm_service'', ''unavailable'')]\<rparr>)
   \<and> dependencies (snd (health_check strict_platform (start_app example_configured 300) 1000 1060)) =
       Some [(''github_api'', ''operational''), (''llm_service'', ''operational'')]"
proof -
  have k: "environ example_no_credential ''OPENAI_API_KEY'' = None"
    by (simp add: example_no_credential_def)
  note inst = health_check_reports_analyzer
    [where pf = strict_platform and a = "start_app example_no_credential 300"
      and start_time = 1000 and now = 1060 and st = example_no_credential and ttl = 300]
  from inst example_no_credential_init
  have n: "llm_analyzer (start_app example_no_credential 300) = None"
    by blast
  from inst n have d: "dependencies (snd (health_check strict_platform (start_app example_no_credential 300) 1000 1060)) =
      Some [(''github_api'', ''operational''), (''llm_service'', ''unavailable'')]"
    by simp
  have h: "health_check strict_platform (start_app example_no_credential 300) 1000 1060 =
       (200, \<lparr>status = ''healthy'', version = ''1.0.0'', uptime = Some 60,
              dependencies = Some [(''github_api'', ''operational''), (''llm_service'', ''unavailable'')]\<rparr>)"
    using n by (simp add: health_check_def APP_VERSION_def strict_platform_def)
  note inst2 = health_check_reports_analyzer
    [where pf = strict_platform and a = "start_app example_configured 300"
      and start_time = 1000 and now = 1060 and st = example_configured and ttl = 300]
  from inst2 example_configured_init
  have "llm_analyzer (start_app example_configured 300) \<noteq> None"
    by simp
  with inst2 have o: "dependencies (snd (health_check strict_platform (start_app example_configured 300) 1000 1060)) =
       Some [(''github_api'', ''operational''), (''llm_service'', ''operational'')]"
    by simp
  from k n h o show ?thesis by (intro conjI)
qed

text \<open>
  C8 as stated does not hold: with \<open>LLM_PROVIDER=anthropic\<close> and both credentials set,
  \<open>llm_service\<close> is \<open>unavailable\<close>.
\<close>

theorem health_unavailable_with_credentials_counterexample:
  "environ example_unsupported ''OPENAI_API_KEY'' = Some ''sk-test''
   \<and> environ example_unsupported ''GEMINI_API_KEY'' = Some ''g-test''
   \<and> health_check strict_platform (start_app example_unsupported 300) 1000 1060 =
       (200, \<lparr>status = ''healthy'', version = ''1.0.0'', uptime = Some 60,
              dependencies = Some [(''github_api'', ''operational''), (''llm_service'', ''unavailable'')]\<rparr>)"
  using example_unsupported_init
  by (simp add: example_unsupported_def health_check_def start_app_def llm_analyzer_singleton_def
      strict_platform_def
      APP_VERSION_def)

end
